theory Spec2Isabelle
  imports Complex_Main "HOL-Library.Word" "HOL-Library.AList"
begin

text \<open>
  The request pipeline of the voice chat client: \<open>ErrorHandler\<close> (classification of
  failures and the retry policy), \<open>Cache\<close> and \<open>ResponseCache\<close> (the TTL store and the
  content hash), \<open>AudioProcessor\<close> (noise reduction and compression) and \<open>ApiClient\<close>
  (timeout, retry loop, caching of results). The platform is a parameter: the network
  decides each request, the clock is read where the code reads it, Web Audio decodes.
\<close>

section \<open>JavaScript values that the client handles\<close>

text \<open>
  Program text (error messages, property names, cache keys, URLs) is a \<open>string\<close>.
  Content that is hashed with \<open>charCodeAt\<close> (chat messages, transcripts, the text of a
  blob) is a list of UTF-16 code units.
\<close>

type_synonym js_string = "16 word list"

text \<open>
  An error object as the engine and the client build them (\<open>new Error(...)\<close>, the
  \<open>TypeError\<close> of \<open>fetch\<close>, a \<open>DOMException\<close>, a \<open>SyntaxError\<close>): whether it is
  an instance of \<open>TypeError\<close>, its \<open>name\<close>, its \<open>message\<close>, a string, and its
  \<open>status\<close>, absent (\<open>None\<close>) or an integer.
\<close>

record js_error =
  instanceofTypeError :: bool
  name :: string
  message :: string
  status :: "int option"

text \<open>
  Any other value with properties, given by what the classifier's reads of it yield.
  Properties are data properties: reading one runs no code.
  \<^item> \<open>message\<close>: a string; \<open>undefined\<close> or \<open>null\<close>, where the read of
    \<open>.includes\<close> raises; a value without a callable \<open>includes\<close> (a number, a
    boolean, a plain object), where the call raises; or a value such as an array, whose
    \<open>includes('fetch')\<close> returns a boolean.
  \<^item> \<open>status\<close>: \<open>undefined\<close>; an integer; or any other value, with its truthiness
    and what the conversion to a string in a template literal does with it: the
    message of the \<open>TypeError\<close> it raises (a \<open>Symbol\<close>, an object without a
    primitive value) or the string it gives.
  \<^item> \<open>name\<close>: the string it is, or \<open>None\<close> for anything that is not a string.
\<close>

datatype js_message =
  MessageString string | MessageUndefined | MessageNull | MessageNoIncludes | MessageIncludes bool

datatype js_status = StatusUndefined | StatusNumber int | StatusOther bool "string + string"

record js_properties =
  isTypeError :: bool
  nameValue :: "string option"
  messageValue :: js_message
  statusValue :: js_status

text \<open>
  A caught value (\<open>error: any\<close>): \<open>null\<close>, \<open>undefined\<close>, an error object, or
  any other value. \<open>null\<close> and \<open>undefined\<close> have no properties: reading one
  raises a \<open>TypeError\<close>.
\<close>

datatype js_value = JSNull | JSUndefined | JSObject js_error | JSOther js_properties

text \<open>The properties of an error object.\<close>

definition properties :: "js_error \<Rightarrow> js_properties" where
  "properties e =
     \<lparr>isTypeError = instanceofTypeError e, nameValue = Some (name e),
      messageValue = MessageString (js_error.message e),
      statusValue = (case js_error.status e of None \<Rightarrow> StatusUndefined | Some n \<Rightarrow> StatusNumber n)\<rparr>"

text \<open>The \<open>TypeError\<close> of a property read on \<open>null\<close> or \<open>undefined\<close> (V8's wording).\<close>

definition nullishPropertyError :: "string \<Rightarrow> string \<Rightarrow> js_error" where
  "nullishPropertyError v prop =
     \<lparr>instanceofTypeError = True, name = ''TypeError'',
      message = ''Cannot read properties of '' @ v @ '' (reading '' @ [CHR 0x27] @ prop @ [CHR 0x27] @ '')'',
      status = None\<rparr>"

text \<open>The \<open>TypeError\<close> of calling what is not a function, and that of a conversion
  to a string that fails.\<close>

definition notAFunctionError :: "string \<Rightarrow> js_error" where
  "notAFunctionError callee =
     \<lparr>instanceofTypeError = True, name = ''TypeError'',
      message = callee @ '' is not a function'', status = None\<rparr>"

definition conversionError :: "string \<Rightarrow> js_error" where
  "conversionError m =
     \<lparr>instanceofTypeError = True, name = ''TypeError'', message = m, status = None\<rparr>"

text \<open>\<open>String.prototype.includes\<close>: the pattern occurs as a contiguous substring.\<close>

fun startsWith :: "string \<Rightarrow> string \<Rightarrow> bool" where
  "startsWith s [] = True"
| "startsWith [] (p # ps) = False"
| "startsWith (c # cs) (p # ps) = (c = p \<and> startsWith cs ps)"

fun includes_s :: "string \<Rightarrow> string \<Rightarrow> bool" where
  "includes_s [] p = (p = [])"
| "includes_s (c # cs) p = (startsWith (c # cs) p \<or> includes_s cs p)"

text \<open>\<open>Number.prototype.toString(radix)\<close> on a non-negative integer, and a template
  literal's rendering of an integer.\<close>

definition digitChar :: "nat \<Rightarrow> char" where
  "digitChar d = ''0123456789abcdefghijklmnopqrstuvwxyz'' ! d"

function toStringRadix :: "nat \<Rightarrow> nat \<Rightarrow> string" where
  "toStringRadix radix n =
     (if radix < 2 \<or> n < radix then [digitChar n]
      else toStringRadix radix (n div radix) @ [digitChar (n mod radix)])"
  by pat_completeness auto
termination
  by (relation "measure snd") auto

declare toStringRadix.simps [simp del]

definition showNumber :: "int \<Rightarrow> string" where
  "showNumber n = (if n < 0 then ''-'' @ toStringRadix 10 (nat (- n)) else toStringRadix 10 (nat n))"

section \<open>types/api: the error taxonomy\<close>

datatype ErrorType =
  NETWORK_ERROR | API_ERROR | MICROPHONE_ERROR | TRANSCRIPTION_ERROR | CHAT_ERROR | UNKNOWN_ERROR

record AppError =
  type :: ErrorType
  message :: string
  originalError :: js_value
  retryable :: bool

section \<open>ErrorHandler\<close>

definition createError :: "ErrorType \<Rightarrow> string \<Rightarrow> js_value \<Rightarrow> bool \<Rightarrow> AppError" where
  "createError t m orig r =
     \<lparr>type = t, message = m, originalError = orig, retryable = r\<rparr>"

text \<open>
  \<open>error.message.includes('fetch')\<close>: what the call returns, or the \<open>TypeError\<close>
  it raises. \<open>if (error.status)\<close>: the truthiness of the status. The status in the
  template literal of the default case.
\<close>

definition messageIncludes :: "js_message \<Rightarrow> string \<Rightarrow> js_error + bool" where
  "messageIncludes m pattern =
     (case m of
        MessageString s \<Rightarrow> Inr (includes_s s pattern)
      | MessageUndefined \<Rightarrow> Inl (nullishPropertyError ''undefined'' ''includes'')
      | MessageNull \<Rightarrow> Inl (nullishPropertyError ''null'' ''includes'')
      | MessageNoIncludes \<Rightarrow> Inl (notAFunctionError ''error.message.includes'')
      | MessageIncludes b \<Rightarrow> Inr b)"

definition truthy :: "js_status \<Rightarrow> bool" where
  "truthy st =
     (case st of StatusUndefined \<Rightarrow> False | StatusNumber n \<Rightarrow> n \<noteq> 0 | StatusOther t conv \<Rightarrow> t)"

definition statusToString :: "js_status \<Rightarrow> js_error + string" where
  "statusToString st =
     (case st of
        StatusUndefined \<Rightarrow> Inr ''undefined''
      | StatusNumber n \<Rightarrow> Inr (showNumber n)
      | StatusOther t conv \<Rightarrow> (case conv of Inl m \<Rightarrow> Inl (conversionError m) | Inr str \<Rightarrow> Inr str))"

text \<open>
  The first test of \<open>handleApiError\<close>,
  \<open>error instanceof TypeError && error.message.includes('fetch')\<close>: the message is
  read only of a \<open>TypeError\<close>.
\<close>

definition networkTest :: "js_properties \<Rightarrow> js_error + bool" where
  "networkTest props =
     (if isTypeError props then messageIncludes (messageValue props) ''fetch'' else Inr False)"

text \<open>
  The body of \<open>handleApiError(error, context)\<close> for a value with properties. \<open>Inl\<close>
  is the \<open>TypeError\<close> raised on the way. The \<open>switch\<close> compares with \<open>===\<close>, so
  only the numbers 400, 401, 429 and 500 take its cases.
\<close>

definition classify :: "js_value \<Rightarrow> js_properties \<Rightarrow> string \<Rightarrow> js_error + AppError" where
  "classify error props context =
     (case networkTest props of
        Inl typeError \<Rightarrow> Inl typeError
      | Inr network \<Rightarrow>
          if network then
            Inr (createError NETWORK_ERROR
              ''Unable to connect to the server. Please check your internet connection.'' error True)
          else if truthy (statusValue props) then
            (if statusValue props = StatusNumber 400 then
               Inr (createError API_ERROR ''Invalid request. Please try again.'' error False)
             else if statusValue props = StatusNumber 401 then
               Inr (createError API_ERROR ''Authentication failed. Please check your API key.'' error False)
             else if statusValue props = StatusNumber 429 then
               Inr (createError API_ERROR ''Too many requests. Please wait a moment and try again.'' error True)
             else if statusValue props = StatusNumber 500 then
               Inr (createError API_ERROR ''Server error. Please try again later.'' error True)
             else
               (case statusToString (statusValue props) of
                  Inl typeError \<Rightarrow> Inl typeError
                | Inr shown \<Rightarrow>
                    Inr (createError API_ERROR
                      (''Server error ('' @ shown @ ''). Please try again.'') error True)))
          else if context = ''transcription'' then
            Inr (createError TRANSCRIPTION_ERROR
              ''Failed to transcribe audio. Please try recording again.'' error True)
          else if context = ''chat'' then
            Inr (createError CHAT_ERROR ''Failed to get AI response. Please try again.'' error True)
          else
            Inr (createError UNKNOWN_ERROR ''An unexpected error occurred. Please try again.'' error True))"

text \<open>
  \<open>handleApiError(error, context)\<close>. For \<open>null\<close> and \<open>undefined\<close>,
  \<open>instanceof\<close> is false, so the first test passes them on, and the read of
  \<open>error.status\<close> raises.
\<close>

definition handleApiError :: "js_value \<Rightarrow> string \<Rightarrow> js_error + AppError" where
  "handleApiError error context =
     (case error of
        JSNull \<Rightarrow> Inl (nullishPropertyError ''null'' ''status'')
      | JSUndefined \<Rightarrow> Inl (nullishPropertyError ''undefined'' ''status'')
      | JSObject e \<Rightarrow> classify error (properties e) context
      | JSOther props \<Rightarrow> classify error props context)"

text \<open>The body of \<open>handleMicrophoneError(error)\<close> for a value with properties.\<close>

definition classifyMicrophone :: "js_value \<Rightarrow> js_properties \<Rightarrow> AppError" where
  "classifyMicrophone error props =
     (if nameValue props = Some ''NotAllowedError'' then
        createError MICROPHONE_ERROR
          ''Microphone access denied. Please allow microphone permissions and try again.'' error False
      else if nameValue props = Some ''NotFoundError'' then
        createError MICROPHONE_ERROR
          ''No microphone found. Please connect a microphone and try again.'' error False
      else if nameValue props = Some ''NotSupportedError'' then
        createError MICROPHONE_ERROR
          ''Your browser does not support audio recording. Please try a different browser.'' error False
      else
        createError MICROPHONE_ERROR
          ''Failed to access microphone. Please check your microphone settings.'' error True)"

definition handleMicrophoneError :: "js_value \<Rightarrow> js_error + AppError" where
  "handleMicrophoneError error =
     (case error of
        JSNull \<Rightarrow> Inl (nullishPropertyError ''null'' ''name'')
      | JSUndefined \<Rightarrow> Inl (nullishPropertyError ''undefined'' ''name'')
      | JSObject e \<Rightarrow> Inr (classifyMicrophone error (properties e))
      | JSOther props \<Rightarrow> Inr (classifyMicrophone error props))"

text \<open>
  \<open>getRetryDelay(attempt)\<close> in milliseconds. The attempt is the loop counter of the
  client, a non-negative integer; \<open>Math.pow(2, attempt)\<close> is exact until it overflows to
  \<open>Infinity\<close>, where the minimum is 10000 as well.
\<close>

definition getRetryDelay :: "nat \<Rightarrow> nat" where
  "getRetryDelay attempt = min (1000 * 2 ^ attempt) 10000"

definition shouldRetry :: "AppError \<Rightarrow> nat \<Rightarrow> int \<Rightarrow> bool" where
  "shouldRetry error attempt maxAttempts = (retryable error = True \<and> int attempt < maxAttempts)"

section \<open>Cache\<close>

text \<open>
  The storage is a JavaScript \<open>Map\<close>: keys in insertion order, one entry per key.
  \<open>Date.now()\<close> is an argument of every operation that reads the clock; \<open>set\<close> reads
  it twice, once for the entry and once inside \<open>cleanup\<close>. The value \<open>null\<close> of
  \<open>get\<close> is \<open>None\<close>; stored data is not \<open>null\<close>.
\<close>

record 'v CacheItem =
  data :: 'v
  timestamp :: int
  expiresAt :: int

type_synonym 'v storage = "(string \<times> 'v CacheItem) list"

definition DEFAULT_TTL :: int where
  "DEFAULT_TTL = 5 * 60 * 1000"

definition Cache_cleanup :: "int \<Rightarrow> 'v storage \<Rightarrow> 'v storage" where
  "Cache_cleanup now st =
     (let expiredKeys = map fst (filter (\<lambda>(key, item). now > expiresAt item) st)
      in fold AList.delete expiredKeys st)"

definition Cache_set :: "string \<Rightarrow> 'v \<Rightarrow> int option \<Rightarrow> int \<Rightarrow> int \<Rightarrow> 'v storage \<Rightarrow> 'v storage" where
  "Cache_set key d ttl now nowCleanup st =
     (let t = (case ttl of None \<Rightarrow> DEFAULT_TTL | Some x \<Rightarrow> x)
      in Cache_cleanup nowCleanup
           (AList.update key \<lparr>data = d, timestamp = now, expiresAt = now + t\<rparr> st))"

definition Cache_get :: "string \<Rightarrow> int \<Rightarrow> 'v storage \<Rightarrow> 'v option \<times> 'v storage" where
  "Cache_get key now st =
     (case map_of st key of
        None \<Rightarrow> (None, st)
      | Some item \<Rightarrow>
          if now > expiresAt item then (None, AList.delete key st)
          else (Some (data item), st))"

definition Cache_has :: "string \<Rightarrow> int \<Rightarrow> 'v storage \<Rightarrow> bool \<times> 'v storage" where
  "Cache_has key now st = (case Cache_get key now st of (r, st') \<Rightarrow> (r \<noteq> None, st'))"

definition Cache_delete :: "string \<Rightarrow> 'v storage \<Rightarrow> bool \<times> 'v storage" where
  "Cache_delete key st = (map_of st key \<noteq> None, AList.delete key st)"

definition Cache_clear :: "'v storage \<Rightarrow> 'v storage" where
  "Cache_clear st = []"

fun join :: "string \<Rightarrow> string list \<Rightarrow> string" where
  "join sep [] = []"
| "join sep [x] = x"
| "join sep (x # y # ys) = x @ sep @ join sep (y # ys)"

definition Cache_createKey :: "string \<Rightarrow> string list \<Rightarrow> string" where
  "Cache_createKey prefix params = prefix @ '':'' @ join '':'' params"

section \<open>ResponseCache\<close>

record Blob =
  bytes :: "8 word list"
  mimeType :: string

definition size_b :: "Blob \<Rightarrow> nat" where
  "size_b b = length (bytes b)"

definition TRANSCRIPTION_TTL :: int where
  "TRANSCRIPTION_TTL = 10 * 60 * 1000"

definition CHAT_TTL :: int where
  "CHAT_TTL = 5 * 60 * 1000"

definition cacheTranscription ::
  "string \<Rightarrow> js_string \<Rightarrow> int \<Rightarrow> int \<Rightarrow> js_string storage \<Rightarrow> js_string storage" where
  "cacheTranscription audioHash transcript now nowCleanup st =
     Cache_set (Cache_createKey ''transcription'' [audioHash]) transcript (Some TRANSCRIPTION_TTL)
       now nowCleanup st"

definition getCachedTranscription ::
  "string \<Rightarrow> int \<Rightarrow> js_string storage \<Rightarrow> js_string option \<times> js_string storage" where
  "getCachedTranscription audioHash now st =
     Cache_get (Cache_createKey ''transcription'' [audioHash]) now st"

definition cacheChatResponse ::
  "string \<Rightarrow> js_string \<Rightarrow> int \<Rightarrow> int \<Rightarrow> js_string storage \<Rightarrow> js_string storage" where
  "cacheChatResponse messageHash response now nowCleanup st =
     Cache_set (Cache_createKey ''chat'' [messageHash]) response (Some CHAT_TTL) now nowCleanup st"

definition getCachedChatResponse ::
  "string \<Rightarrow> int \<Rightarrow> js_string storage \<Rightarrow> js_string option \<times> js_string storage" where
  "getCachedChatResponse messageHash now st =
     Cache_get (Cache_createKey ''chat'' [messageHash]) now st"

text \<open>
  \<open>createHash(content)\<close>. The text of a blob (\<open>await content.text()\<close>, its UTF-8
  decoding) is the platform's and comes as the function \<open>textOf\<close>. Each round leaves a
  32-bit integer (\<open>hash & hash\<close>), so the loop runs on \<open>32 word\<close>; \<open>Math.abs\<close>
  is taken of its signed value.
\<close>

datatype content = Text js_string | BlobContent Blob

definition hashRound :: "16 word \<Rightarrow> 32 word \<Rightarrow> 32 word" where
  "hashRound char hash = (push_bit 5 hash - hash) + ucast char"

definition createHash :: "(Blob \<Rightarrow> js_string) \<Rightarrow> content \<Rightarrow> string" where
  "createHash textOf c =
     (let d = (case c of BlobContent b \<Rightarrow> textOf b | Text s \<Rightarrow> s);
          hash = fold hashRound d 0
      in toStringRadix 36 (nat \<bar>sint hash\<bar>))"

section \<open>AudioProcessor\<close>

text \<open>
  Web Audio and floating point are the platform's. A sample is a value of a type \<open>'s\<close>
  and every operation on samples that the processor performs in floating point is a
  field of \<open>Platform\<close>:
  \<^item> \<open>decodeAudioData\<close>: creating the audio context, reading the blob and decoding it;
    \<open>None\<close> when any of the three raises. The buffer has the sample rate of the audio
    context, to which Web Audio resamples what it decodes: it need not be the rate
    that the blob declares;
  \<^item> \<open>bufferSupported channels length rate\<close>: whether \<open>createBuffer\<close> accepts the
    arguments (it raises \<open>NotSupportedError\<close> otherwise);
  \<^item> \<open>silence\<close>: the number 0;
  \<^item> \<open>highPass prevOutput x prevInput\<close>: \<open>alpha * (prevOutput + x - prevInput)\<close> with
    \<open>alpha = 0.85\<close>, stored in a \<open>Float32Array\<close>;
  \<^item> \<open>orZero v\<close>: \<open>v || 0\<close>, where \<open>None\<close> is the \<open>undefined\<close> of a read outside
    the array;
  \<^item> \<open>scaleLength length target rate\<close>: \<open>Math.floor(length * (target / rate))\<close>;
  \<^item> \<open>sourceIndex i target rate\<close>: \<open>Math.floor(i / (target / rate))\<close>;
  \<^item> \<open>toInt16 quality v\<close>: the 16 bits that \<open>setInt16\<close> stores for
    \<open>Math.max(-1, Math.min(1, v)) * 0x7FFF * quality\<close>;
  \<^item> \<open>blobText\<close>: \<open>Blob.text()\<close>.
  Sample rates are whole numbers of hertz. Closing the audio context and allocating the
  \<open>ArrayBuffer\<close> of the WAV file do not raise; the lines written to the console are
  left out.
\<close>

record 's AudioBuffer =
  sampleRate :: nat
  channelData :: "'s list list"

record 's Platform =
  blobText :: "Blob \<Rightarrow> js_string"
  decodeAudioData :: "Blob \<Rightarrow> 's AudioBuffer option"
  bufferSupported :: "nat \<Rightarrow> nat \<Rightarrow> nat \<Rightarrow> bool"
  silence :: 's
  highPass :: "'s \<Rightarrow> 's \<Rightarrow> 's \<Rightarrow> 's"
  orZero :: "'s option \<Rightarrow> 's"
  scaleLength :: "nat \<Rightarrow> nat \<Rightarrow> nat \<Rightarrow> nat"
  sourceIndex :: "nat \<Rightarrow> nat \<Rightarrow> nat \<Rightarrow> nat"
  toInt16 :: "real \<Rightarrow> 's option \<Rightarrow> 16 word"

datatype audio_exception = DecodeError | NotSupportedError | IndexSizeError

definition numberOfChannels :: "'s AudioBuffer \<Rightarrow> nat" where
  "numberOfChannels ab = length (channelData ab)"

text \<open>\<open>AudioBuffer.length\<close>: the number of frames, the length of every channel.\<close>

definition length_b :: "'s AudioBuffer \<Rightarrow> nat" where
  "length_b ab = (case channelData ab of [] \<Rightarrow> 0 | c # cs \<Rightarrow> length c)"

definition createBuffer :: "'s Platform \<Rightarrow> nat \<Rightarrow> nat \<Rightarrow> nat \<Rightarrow> audio_exception + 's AudioBuffer" where
  "createBuffer p channels len rate =
     (if bufferSupported p channels len rate
      then Inr \<lparr>sampleRate = rate, channelData = replicate channels (replicate len (silence p))\<rparr>
      else Inl NotSupportedError)"

definition getChannelData :: "'s AudioBuffer \<Rightarrow> nat \<Rightarrow> audio_exception + 's list" where
  "getChannelData ab channel =
     (if channel < numberOfChannels ab then Inr (channelData ab ! channel) else Inl IndexSizeError)"

text \<open>A read of a typed array: \<open>undefined\<close> outside it. A run of writes from index 0:
  those outside the array are dropped.\<close>

definition readAt :: "'s list \<Rightarrow> nat \<Rightarrow> 's option" where
  "readAt xs i = (if i < length xs then Some (xs ! i) else None)"

definition writeInto :: "'s list \<Rightarrow> 's list \<Rightarrow> 's list" where
  "writeInto target vs = take (length target) vs @ drop (length vs) target"

definition ascii :: "string \<Rightarrow> 8 word list" where
  "ascii s = map (\<lambda>c. of_char c) s"

definition le16 :: "16 word \<Rightarrow> 8 word list" where
  "le16 w = [ucast w, ucast (drop_bit 8 w)]"

definition le32 :: "32 word \<Rightarrow> 8 word list" where
  "le32 w = [ucast w, ucast (drop_bit 8 w), ucast (drop_bit 16 w), ucast (drop_bit 24 w)]"

definition wavHeader :: "nat \<Rightarrow> nat \<Rightarrow> nat \<Rightarrow> 8 word list" where
  "wavHeader channels len rate =
     ascii ''RIFF'' @ le32 (of_nat (36 + len * channels * 2)) @ ascii ''WAVE'' @
     ascii ''fmt '' @ le32 16 @ le16 1 @ le16 (of_nat channels) @
     le32 (of_nat rate) @ le32 (of_nat (rate * channels * 2)) @
     le16 (of_nat (channels * 2)) @ le16 16 @
     ascii ''data'' @ le32 (of_nat (len * channels * 2))"

definition pcmFrame :: "'s Platform \<Rightarrow> 's AudioBuffer \<Rightarrow> real \<Rightarrow> nat \<Rightarrow> 8 word list" where
  "pcmFrame p ab quality i =
     concat (map (\<lambda>channel. le16 (toInt16 p quality (readAt (channelData ab ! channel) i)))
               [0 ..< numberOfChannels ab])"

definition audioBufferToBlob :: "'s Platform \<Rightarrow> 's AudioBuffer \<Rightarrow> real \<Rightarrow> Blob" where
  "audioBufferToBlob p ab quality =
     \<lparr>bytes = wavHeader (numberOfChannels ab) (length_b ab) (sampleRate ab) @
              concat (map (pcmFrame p ab quality) [0 ..< length_b ab]),
      mimeType = ''audio/wav''\<rparr>"

text \<open>The body of the \<open>try\<close> of \<open>compressAudio\<close>, and the method with its \<open>catch\<close>.
  The default quality is 0.7.\<close>

definition compressAudio_try :: "'s Platform \<Rightarrow> Blob \<Rightarrow> real \<Rightarrow> audio_exception + Blob" where
  "compressAudio_try p audioBlob quality =
     (case decodeAudioData p audioBlob of
        None \<Rightarrow> Inl DecodeError
      | Some audioBuffer \<Rightarrow>
          (let targetSampleRate = min (sampleRate audioBuffer) 22050 in
           case createBuffer p 1
                  (scaleLength p (length_b audioBuffer) targetSampleRate (sampleRate audioBuffer))
                  targetSampleRate of
             Inl e \<Rightarrow> Inl e
           | Inr compressedBuffer \<Rightarrow>
               (case getChannelData audioBuffer 0 of
                  Inl e \<Rightarrow> Inl e
                | Inr sourceData \<Rightarrow>
                    (case getChannelData compressedBuffer 0 of
                       Inl e \<Rightarrow> Inl e
                     | Inr targetData \<Rightarrow>
                         (let filled = map (\<lambda>i. orZero p
                                (readAt sourceData (sourceIndex p i targetSampleRate (sampleRate audioBuffer))))
                                [0 ..< length targetData]
                          in Inr (audioBufferToBlob p
                                (compressedBuffer\<lparr>channelData := (channelData compressedBuffer)[0 := filled]\<rparr>)
                                quality))))))"

definition compressAudio :: "'s Platform \<Rightarrow> Blob \<Rightarrow> real option \<Rightarrow> Blob" where
  "compressAudio p audioBlob quality =
     (case compressAudio_try p audioBlob (case quality of None \<Rightarrow> 0.7 | Some q \<Rightarrow> q) of
        Inr compressedBlob \<Rightarrow> compressedBlob
      | Inl e \<Rightarrow> audioBlob)"

fun highPassFilter :: "('s \<Rightarrow> 's \<Rightarrow> 's \<Rightarrow> 's) \<Rightarrow> 's \<Rightarrow> 's \<Rightarrow> 's list \<Rightarrow> 's list" where
  "highPassFilter f prevInput prevOutput [] = []"
| "highPassFilter f prevInput prevOutput (x # xs) =
     (let y = f prevOutput x prevInput in y # highPassFilter f x y xs)"

definition applyNoiseReduction_try :: "'s Platform \<Rightarrow> Blob \<Rightarrow> audio_exception + Blob" where
  "applyNoiseReduction_try p audioBlob =
     (case decodeAudioData p audioBlob of
        None \<Rightarrow> Inl DecodeError
      | Some audioBuffer \<Rightarrow>
          (case createBuffer p (numberOfChannels audioBuffer) (length_b audioBuffer)
                  (sampleRate audioBuffer) of
             Inl e \<Rightarrow> Inl e
           | Inr filteredBuffer \<Rightarrow>
               (let filled = map (\<lambda>(inputData, outputData).
                        writeInto outputData
                          (highPassFilter (highPass p) (silence p) (silence p) inputData))
                      (zip (channelData audioBuffer) (channelData filteredBuffer))
                in Inr (audioBufferToBlob p (filteredBuffer\<lparr>channelData := filled\<rparr>) 0.8))))"

definition applyNoiseReduction :: "'s Platform \<Rightarrow> Blob \<Rightarrow> Blob" where
  "applyNoiseReduction p audioBlob =
     (case applyNoiseReduction_try p audioBlob of
        Inr processedBlob \<Rightarrow> processedBlob
      | Inl e \<Rightarrow> audioBlob)"

text \<open>The sample rate that a WAV container declares: the little-endian 32-bit field at
  offset 24 of its header, which \<open>audioBufferToBlob\<close> writes.\<close>

definition wavSampleRate :: "Blob \<Rightarrow> nat option" where
  "wavSampleRate b =
     (if length (bytes b) < 44 then None
      else Some (unat (bytes b ! 24) + 256 * unat (bytes b ! 25) +
                 65536 * unat (bytes b ! 26) + 16777216 * unat (bytes b ! 27)))"

section \<open>ApiClient\<close>

record Config =
  API_URL :: string
  API_TIMEOUT :: nat
  RETRY_ATTEMPTS :: int

text \<open>\<open>ENV_CONFIG\<close>; the URL comes from the environment.\<close>

definition ENV_CONFIG :: "string \<Rightarrow> Config" where
  "ENV_CONFIG url = \<lparr>API_URL = url, API_TIMEOUT = 30000, RETRY_ATTEMPTS = 3\<rparr>"

text \<open>
  The body of a response as the client reads it, typed as \<open>types/api\<close> declares it:
  \<open>errorData.detail\<close> of a failure (an absent detail gives the message of
  \<open>new Error(undefined)\<close>, the empty string), \<open>result.transcript\<close> and
  \<open>result.response\<close> of a success. A body parses to such an object or to \<open>null\<close>,
  which has no properties. \<open>json\<close> is \<open>Inl e\<close> when \<open>response.json()\<close> rejects
  with \<open>e\<close>.
\<close>

record JsonBody =
  detail :: string
  transcript :: js_string
  response :: js_string

datatype json_value = JsonNull | JsonObject JsonBody

record Response =
  status :: int
  statusText :: string
  json :: "js_error + json_value"

definition ok :: "Response \<Rightarrow> bool" where
  "ok r = (200 \<le> Response.status r \<and> Response.status r \<le> 299)"

text \<open>
  One call of \<open>fetch\<close>, as the network decides it: how it settles when nobody aborts it,
  and after how many milliseconds.
\<close>

datatype settled = Resolved Response | Rejected js_error

record InFlight =
  settles :: settled
  after :: nat

text \<open>The \<open>DOMException\<close> with which an aborted \<open>fetch\<close> rejects. It is not a
  \<open>TypeError\<close> and has no \<open>status\<close>.\<close>

definition abortError :: js_error where
  "abortError =
     \<lparr>instanceofTypeError = False, name = ''AbortError'',
      message = ''The operation was aborted.'', status = None\<rparr>"

text \<open>\<open>fetchWithTimeout\<close>: the timer aborts a request that is still in flight when the
  timeout has passed.\<close>

definition fetchWithTimeout :: "nat \<Rightarrow> InFlight \<Rightarrow> js_error + Response" where
  "fetchWithTimeout timeout f =
     (if after f > timeout then Inl abortError
      else case settles f of Resolved r \<Rightarrow> Inr r | Rejected e \<Rightarrow> Inl e)"

text \<open>
  \<open>handleResponse\<close>. For a response that is not OK, \<open>errorData\<close> is the parsed
  body, or the object made of the status when parsing rejects; the read of
  \<open>errorData.detail\<close> raises when the body is \<open>null\<close>, before the status is set on
  the error.
\<close>

definition handleResponse :: "Response \<Rightarrow> js_error + json_value" where
  "handleResponse r =
     (if \<not> ok r then
        (let errorData =
               (case json r of
                  Inr parsed \<Rightarrow> parsed
                | Inl e \<Rightarrow> JsonObject
                    \<lparr>detail = ''HTTP '' @ showNumber (Response.status r) @ '': '' @ statusText r,
                     transcript = [], response = []\<rparr>)
         in case errorData of
              JsonNull \<Rightarrow> Inl (nullishPropertyError ''null'' ''detail'')
            | JsonObject body \<Rightarrow>
                Inl \<lparr>instanceofTypeError = False, name = ''Error'', message = detail body,
                     status = Some (Response.status r)\<rparr>)
      else json r)"

text \<open>
  What a call leaves behind: the shared cache, and the calls it made to the network, to
  \<open>sleep\<close> and to the audio processor, in order. A call reads the clock at most three
  times: in \<open>Cache.get\<close>, in \<open>Cache.set\<close> and in \<open>Cache.cleanup\<close>.
\<close>

datatype body = FormData Blob string | Json js_string

datatype event = Fetch string body | Sleep nat | ApplyNoiseReduction | CompressAudio

record World =
  storage :: "js_string storage"
  trace :: "event list"

record Clock =
  lookupAt :: int
  storeAt :: int
  cleanupAt :: int

text \<open>What a \<open>throw\<close> carries: a caught value, or an \<open>AppError\<close> (the objects with a
  \<open>type\<close> property).\<close>

datatype thrown = Raw js_value | App AppError

text \<open>
  The two retry loops differ in the URL, the context of the classifier and the cache
  they fill; \<open>operation\<close> selects them.
\<close>

datatype operation = Transcription | Chat

definition url :: "Config \<Rightarrow> operation \<Rightarrow> string" where
  "url cfg op = API_URL cfg @ (case op of Transcription \<Rightarrow> ''/transcribe'' | Chat \<Rightarrow> ''/chat'')"

text \<open>
  The inner \<open>try\<close> up to the write to the cache: \<open>fetchWithTimeout\<close>, then
  \<open>handleResponse\<close>, then the read of \<open>result.transcript\<close> or \<open>result.response\<close>,
  which raises when the body of an OK response is \<open>null\<close>.
\<close>

definition resultField :: "operation \<Rightarrow> string" where
  "resultField op = (case op of Transcription \<Rightarrow> ''transcript'' | Chat \<Rightarrow> ''response'')"

definition request :: "Config \<Rightarrow> operation \<Rightarrow> InFlight \<Rightarrow> js_error + JsonBody" where
  "request cfg op f =
     (case fetchWithTimeout (API_TIMEOUT cfg) f of
        Inl e \<Rightarrow> Inl e
      | Inr r \<Rightarrow>
          (case handleResponse r of
             Inl e \<Rightarrow> Inl e
           | Inr JsonNull \<Rightarrow> Inl (nullishPropertyError ''null'' (resultField op))
           | Inr (JsonObject result) \<Rightarrow> Inr result))"

definition context_of :: "operation \<Rightarrow> string" where
  "context_of op = (case op of Transcription \<Rightarrow> ''transcription'' | Chat \<Rightarrow> ''chat'')"

definition cacheResult ::
  "operation \<Rightarrow> string \<Rightarrow> JsonBody \<Rightarrow> Clock \<Rightarrow> js_string storage \<Rightarrow> js_string storage" where
  "cacheResult op h result clk st =
     (case op of
        Transcription \<Rightarrow> cacheTranscription h (transcript result) (storeAt clk) (cleanupAt clk) st
      | Chat \<Rightarrow> cacheChatResponse h (response result) (storeAt clk) (cleanupAt clk) st)"

definition maxRetriesExceeded :: js_error where
  "maxRetriesExceeded =
     \<lparr>instanceofTypeError = False, name = ''Error'', message = ''Max retries exceeded'',
      status = None\<rparr>"

text \<open>
  \<open>for (let attempt = 0; attempt <= retryAttempts; attempt++)\<close> with its \<open>try\<close>
  and \<open>catch\<close>, from the given attempt on, and the \<open>throw\<close> after the loop.
  \<open>net attempt\<close> is what the network does with the request of that attempt.
\<close>

function requestLoop ::
  "Config \<Rightarrow> operation \<Rightarrow> (nat \<Rightarrow> InFlight) \<Rightarrow> int \<Rightarrow> Clock \<Rightarrow> string \<Rightarrow> body \<Rightarrow> nat \<Rightarrow> World
     \<Rightarrow> (thrown + JsonBody) \<times> World" where
  "requestLoop cfg op net retryAttempts clk h b attempt w =
     (if int attempt \<le> retryAttempts then
        (let w1 = w\<lparr>trace := trace w @ [Fetch (url cfg op) b]\<rparr> in
         case request cfg op (net attempt) of
           Inr result \<Rightarrow> (Inr result, w1\<lparr>storage := cacheResult op h result clk (storage w1)\<rparr>)
         | Inl e \<Rightarrow>
             (case handleApiError (JSObject e) (context_of op) of
                Inl typeError \<Rightarrow> (Inl (Raw (JSObject typeError)), w1)
              | Inr appError \<Rightarrow>
                  if int attempt = retryAttempts \<or> \<not> shouldRetry appError attempt retryAttempts
                  then (Inl (App appError), w1)
                  else requestLoop cfg op net retryAttempts clk h b (Suc attempt)
                         (w1\<lparr>trace := trace w1 @ [Sleep (getRetryDelay attempt)]\<rparr>)))
      else
        (case handleApiError (JSObject maxRetriesExceeded) (context_of op) of
           Inl typeError \<Rightarrow> (Inl (Raw (JSObject typeError)), w)
         | Inr appError \<Rightarrow> (Inl (App appError), w)))"
  by pat_completeness auto
termination
  by (relation "measure (\<lambda>(cfg, op, net, retryAttempts, clk, h, b, attempt, w).
        nat (retryAttempts + 1 - int attempt))") auto

declare requestLoop.simps [simp del]

text \<open>The outer \<open>catch\<close>: an \<open>AppError\<close> is thrown again, anything else is classified.\<close>

definition rethrow :: "string \<Rightarrow> thrown \<Rightarrow> thrown" where
  "rethrow ctx t =
     (case t of
        App appError \<Rightarrow> App appError
      | Raw v \<Rightarrow>
          (case handleApiError v ctx of
             Inr appError \<Rightarrow> App appError
           | Inl typeError \<Rightarrow> Raw (JSObject typeError)))"

text \<open>Lines 67 to 83 of \<open>transcribeAudio\<close>: noise reduction, then compression of a
  recording of more than 200 KiB, with the calls made.\<close>

definition processAudio :: "'s Platform \<Rightarrow> Blob \<Rightarrow> Blob \<times> event list" where
  "processAudio p audioBlob =
     (let originalSize = size_b audioBlob;
          processedBlob = applyNoiseReduction p audioBlob
      in if originalSize > 200 * 1024
         then (compressAudio p processedBlob (Some 0.95), [ApplyNoiseReduction, CompressAudio])
         else (processedBlob, [ApplyNoiseReduction]))"

text \<open>
  \<open>transcribeAudio(audioBlob, retryAttempts)\<close>; \<open>None\<close> is the default of the second
  parameter. The result is the \<open>transcript\<close> of the \<open>TranscribeResponse\<close>.
  \<open>if (cachedResult)\<close> is the truthiness of \<open>string | null\<close>: neither \<open>null\<close> nor
  the empty string.
\<close>

definition transcribeAudio ::
  "'s Platform \<Rightarrow> Config \<Rightarrow> (nat \<Rightarrow> InFlight) \<Rightarrow> Clock \<Rightarrow> Blob \<Rightarrow> int option \<Rightarrow> World
     \<Rightarrow> (thrown + js_string) \<times> World" where
  "transcribeAudio p cfg net clk audioBlob retryAttempts w =
     (let n = (case retryAttempts of None \<Rightarrow> RETRY_ATTEMPTS cfg | Some k \<Rightarrow> k);
          audioHash = createHash (blobText p) (BlobContent audioBlob);
          (cachedResult, st) = getCachedTranscription audioHash (lookupAt clk) (storage w);
          w1 = w\<lparr>storage := st\<rparr>
      in if cachedResult \<noteq> None \<and> cachedResult \<noteq> Some [] then (Inr (the cachedResult), w1)
         else
           (let (processedBlob, calls) = processAudio p audioBlob;
                w2 = w1\<lparr>trace := trace w1 @ calls\<rparr>
            in case requestLoop cfg Transcription net n clk audioHash
                      (FormData processedBlob ''recording.wav'') 0 w2 of
                 (Inr result, w3) \<Rightarrow> (Inr (transcript result), w3)
               | (Inl t, w3) \<Rightarrow> (Inl (rethrow ''transcription'' t), w3)))"

text \<open>\<open>sendChatMessage(message, retryAttempts)\<close>; the result is the \<open>response\<close> of the
  \<open>ChatResponse\<close>, the request body is \<open>JSON.stringify({ message })\<close>.\<close>

definition sendChatMessage ::
  "'s Platform \<Rightarrow> Config \<Rightarrow> (nat \<Rightarrow> InFlight) \<Rightarrow> Clock \<Rightarrow> js_string \<Rightarrow> int option \<Rightarrow> World
     \<Rightarrow> (thrown + js_string) \<times> World" where
  "sendChatMessage p cfg net clk msg retryAttempts w =
     (let n = (case retryAttempts of None \<Rightarrow> RETRY_ATTEMPTS cfg | Some k \<Rightarrow> k);
          messageHash = createHash (blobText p) (Text msg);
          (cachedResult, st) = getCachedChatResponse messageHash (lookupAt clk) (storage w);
          w1 = w\<lparr>storage := st\<rparr>
      in if cachedResult \<noteq> None \<and> cachedResult \<noteq> Some [] then (Inr (the cachedResult), w1)
         else
           (case requestLoop cfg Chat net n clk messageHash (Json msg) 0 w1 of
              (Inr result, w3) \<Rightarrow> (Inr (response result), w3)
            | (Inl t, w3) \<Rightarrow> (Inl (rethrow ''chat'' t), w3)))"

text \<open>The requests and the waits among the calls of a trace.\<close>

fun isFetch :: "event \<Rightarrow> bool" where
  "isFetch (Fetch u b) = True"
| "isFetch ev = False"

fun isSleep :: "event \<Rightarrow> bool" where
  "isSleep (Sleep ms) = True"
| "isSleep ev = False"

definition requests :: "event list \<Rightarrow> nat" where
  "requests evs = length (filter isFetch evs)"

definition sleeps :: "event list \<Rightarrow> nat" where
  "sleeps evs = length (filter isSleep evs)"

section \<open>Values for the examples\<close>

definition httpError :: "int \<Rightarrow> js_error" where
  "httpError n = \<lparr>instanceofTypeError = False, name = ''Error'', message = ''failed'', status = Some n\<rparr>"

definition exampleConfig :: Config where
  "exampleConfig = ENV_CONFIG ''http://localhost:8000''"

text \<open>A response with the given status, after 100 ms; its body carries the given text
  as transcript and as chat response.\<close>

definition respond :: "int \<Rightarrow> js_string \<Rightarrow> InFlight" where
  "respond s t =
     \<lparr>settles = Resolved \<lparr>status = s, statusText = ''status'',
          json = Inr (JsonObject \<lparr>detail = ''detail'', transcript = t, response = t\<rparr>)\<rparr>,
      after = 100\<rparr>"

definition emptyWorld :: World where
  "emptyWorld = \<lparr>storage = [], trace = []\<rparr>"

definition clockAt :: "int \<Rightarrow> Clock" where
  "clockAt t = \<lparr>lookupAt = t, storeAt = t + 200, cleanupAt = t + 200\<rparr>"

text \<open>A platform without Web Audio: every decoding raises. A platform that decodes
  every blob to four frames of mono audio at 48 kHz and computes in whole numbers.\<close>

definition noWebAudio :: "nat Platform" where
  "noWebAudio =
     \<lparr>blobText = (\<lambda>b. map ucast (bytes b)), decodeAudioData = (\<lambda>b. None),
      bufferSupported = (\<lambda>channels len rate. False), silence = 0,
      highPass = (\<lambda>prevOutput x prevInput. 0), orZero = (\<lambda>v. 0),
      scaleLength = (\<lambda>len target rate. 0), sourceIndex = (\<lambda>i target rate. 0),
      toInt16 = (\<lambda>quality v. 0)\<rparr>"

definition webAudio48k :: "nat Platform" where
  "webAudio48k =
     \<lparr>blobText = (\<lambda>b. map ucast (bytes b)),
      decodeAudioData = (\<lambda>b. Some \<lparr>sampleRate = 48000, channelData = [[1, 2, 3, 4]]\<rparr>),
      bufferSupported = (\<lambda>channels len rate. 0 < channels \<and> 0 < len \<and> 0 < rate), silence = 0,
      highPass = (\<lambda>prevOutput x prevInput. (prevOutput + x - prevInput) * 85 div 100),
      orZero = (\<lambda>v. case v of None \<Rightarrow> 0 | Some x \<Rightarrow> x),
      scaleLength = (\<lambda>len target rate. len * target div rate),
      sourceIndex = (\<lambda>i target rate. i * rate div target),
      toInt16 = (\<lambda>quality v. case v of None \<Rightarrow> 0 | Some x \<Rightarrow> of_nat x)\<rparr>"

text \<open>A platform that decodes a WAV file to four frames of mono audio at the rate its
  header declares, without resampling, and raises on anything else.\<close>

definition webAudioNative :: "nat Platform" where
  "webAudioNative =
     \<lparr>blobText = (\<lambda>b. map ucast (bytes b)),
      decodeAudioData = (\<lambda>b. case wavSampleRate b of
         None \<Rightarrow> None
       | Some rate \<Rightarrow> Some \<lparr>sampleRate = rate, channelData = [[1, 2, 3, 4]]\<rparr>),
      bufferSupported = (\<lambda>channels len rate. 0 < channels \<and> 0 < len \<and> 0 < rate), silence = 0,
      highPass = (\<lambda>prevOutput x prevInput. (prevOutput + x - prevInput) * 85 div 100),
      orZero = (\<lambda>v. case v of None \<Rightarrow> 0 | Some x \<Rightarrow> x),
      scaleLength = (\<lambda>len target rate. len * target div rate),
      sourceIndex = (\<lambda>i target rate. i * rate div target),
      toInt16 = (\<lambda>quality v. case v of None \<Rightarrow> 0 | Some x \<Rightarrow> of_nat x)\<rparr>"

text \<open>A recording of the given number of zero bytes; mono WAV files of 102400 silent
  frames (204844 bytes) at 48 kHz and at 16 kHz; a mono WAV file of four silent frames
  (52 bytes) at 96 kHz.\<close>

definition recording :: "nat \<Rightarrow> Blob" where
  "recording n = \<lparr>bytes = replicate n 0, mimeType = ''audio/wav''\<rparr>"

definition wav48k :: Blob where
  "wav48k = \<lparr>bytes = wavHeader 1 102400 48000 @ replicate 204800 0, mimeType = ''audio/wav''\<rparr>"

definition wav16k :: Blob where
  "wav16k = \<lparr>bytes = wavHeader 1 102400 16000 @ replicate 204800 0, mimeType = ''audio/wav''\<rparr>"

definition wav96k :: Blob where
  "wav96k = \<lparr>bytes = wavHeader 1 4 96000 @ replicate 8 0, mimeType = ''audio/wav''\<rparr>"

text \<open>The error of a response with status 401 from \<open>respond\<close>, and its
  classification.\<close>

definition error401 :: js_error where
  "error401 = \<lparr>instanceofTypeError = False, name = ''Error'', message = ''detail'', status = Some 401\<rparr>"

definition unauthorized :: AppError where
  "unauthorized =
     createError API_ERROR ''Authentication failed. Please check your API key.''
       (JSObject error401) False"

text \<open>
  A recording of silence, transcribed twice: the network answers every request with
  status 200 and the empty transcript; the first call starts at time 0 and stores its
  result at 200 ms, the second starts at 1000 ms.
\<close>

definition shortRecording :: Blob where
  "shortRecording = recording 1"

definition silentNet :: "nat \<Rightarrow> InFlight" where
  "silentNet attempt = respond 200 []"

definition silentFirst :: "(thrown + js_string) \<times> World" where
  "silentFirst =
     transcribeAudio noWebAudio exampleConfig silentNet (clockAt 0) shortRecording None emptyWorld"

definition silentSecond :: "(thrown + js_string) \<times> World" where
  "silentSecond =
     transcribeAudio noWebAudio exampleConfig silentNet (clockAt 1000) shortRecording None
       (snd silentFirst)"

section \<open>The cache: lookups, writes and expiry\<close>

text \<open>The storage holds one entry per key: \<open>distinct (map fst st)\<close>. Every
  operation keeps it so.\<close>

lemma map_of_fold_delete:
  "map_of (fold AList.delete ks st) k = (if k \<in> set ks then None else map_of st k)"
  by (induction ks arbitrary: st) (auto simp: delete_conv')

lemma distinct_fold_delete:
  "distinct (map fst st) \<Longrightarrow> distinct (map fst (fold AList.delete ks st))"
  by (induction ks arbitrary: st) (auto simp: distinct_delete)

lemma map_of_cleanup:
  assumes "distinct (map fst st)"
  shows "map_of (Cache_cleanup now st) k =
     (case map_of st k of None \<Rightarrow> None | Some item \<Rightarrow> if now > expiresAt item then None else Some item)"
proof (cases "map_of st k")
  case None
  then show ?thesis by (simp add: Cache_cleanup_def map_of_fold_delete)
next
  case (Some item)
  then have mem: "(k, item) \<in> set st" by (rule map_of_SomeD)
  have uniq: "item' = item" if "(k, item') \<in> set st" for item'
  proof -
    from assms that have "map_of st k = Some item'" by (rule map_of_is_SomeI)
    with Some show ?thesis by simp
  qed
  have "k \<in> fst ` {x \<in> set st. case x of (key, item) \<Rightarrow> now > expiresAt item} \<longleftrightarrow> now > expiresAt item"
  proof
    assume "k \<in> fst ` {x \<in> set st. case x of (key, item) \<Rightarrow> now > expiresAt item}"
    then obtain item' where "(k, item') \<in> set st" "now > expiresAt item'" by force
    with uniq show "now > expiresAt item" by blast
  next
    assume "now > expiresAt item"
    with mem show "k \<in> fst ` {x \<in> set st. case x of (key, item) \<Rightarrow> now > expiresAt item}" by force
  qed
  then show ?thesis using Some
    by (simp add: Cache_cleanup_def map_of_fold_delete)
qed


lemma distinct_cleanup:
  "distinct (map fst st) \<Longrightarrow> distinct (map fst (Cache_cleanup now st))"
  by (simp add: Cache_cleanup_def distinct_fold_delete)

lemma distinct_set:
  "distinct (map fst st) \<Longrightarrow> distinct (map fst (Cache_set key v ttl now nowCleanup st))"
  by (simp add: Cache_set_def distinct_cleanup distinct_update)

lemma map_of_set_same:
  assumes "distinct (map fst st)"
  shows "map_of (Cache_set key v ttl now nowCleanup st) key =
     (if nowCleanup > now + (case ttl of None \<Rightarrow> DEFAULT_TTL | Some x \<Rightarrow> x) then None
      else Some \<lparr>data = v, timestamp = now,
                  expiresAt = now + (case ttl of None \<Rightarrow> DEFAULT_TTL | Some x \<Rightarrow> x)\<rparr>)"
  using assms
  by (simp add: Cache_set_def map_of_cleanup distinct_update update_conv')

lemma get_hit:
  "map_of st key = Some item \<Longrightarrow> now \<le> expiresAt item \<Longrightarrow> Cache_get key now st = (Some (data item), st)"
  by (simp add: Cache_get_def)

lemma get_expired:
  "map_of st key = Some item \<Longrightarrow> now > expiresAt item \<Longrightarrow> Cache_get key now st = (None, AList.delete key st)"
  by (simp add: Cache_get_def)

lemma get_absent:
  "map_of st key = None \<Longrightarrow> Cache_get key now st = (None, st)"
  by (simp add: Cache_get_def)

lemma has_absent:
  "map_of st key = None \<Longrightarrow> Cache_has key now st = (False, st)"
  by (simp add: Cache_has_def get_absent)

text \<open>
  Claim C6. On a storage with one entry per key: after \<open>set(key, v, ttl)\<close>, a
  \<open>get(key)\<close> at a time \<open>t\<close> not later than \<open>now + ttl\<close> (the clock does not run
  backwards between the cleanup of the \<open>set\<close> and the \<open>get\<close>) returns \<open>v\<close>; a
  \<open>get(key)\<close> at a time later than \<open>now + ttl\<close> returns \<open>null\<close> and leaves no
  entry for the key, so that a following \<open>has(key)\<close> is false at any time. An entry
  of the storage is visible to \<open>get\<close> and \<open>has\<close> exactly when
  \<open>now \<le> expiresAt\<close>.
\<close>

theorem cache_get_after_set:
  assumes "distinct (map fst st)"
  shows "(nowCleanup \<le> t \<and> t \<le> now + (case ttl of None \<Rightarrow> DEFAULT_TTL | Some x \<Rightarrow> x) \<longrightarrow>
            fst (Cache_get key t (Cache_set key v ttl now nowCleanup st)) = Some v) \<and>
         (now + (case ttl of None \<Rightarrow> DEFAULT_TTL | Some x \<Rightarrow> x) < t \<longrightarrow>
            fst (Cache_get key t (Cache_set key v ttl now nowCleanup st)) = None \<and>
            map_of (snd (Cache_get key t (Cache_set key v ttl now nowCleanup st))) key = None \<and>
            fst (Cache_has key t' (snd (Cache_get key t (Cache_set key v ttl now nowCleanup st)))) = False) \<and>
         (map_of st key = Some item \<longrightarrow>
            (fst (Cache_get key t st) = Some (data item)) = (t \<le> expiresAt item) \<and>
            (fst (Cache_get key t st) = None) = (\<not> t \<le> expiresAt item) \<and>
            fst (Cache_has key t st) = (t \<le> expiresAt item))"
proof (intro conjI impI)
  let ?e = "now + (case ttl of None \<Rightarrow> DEFAULT_TTL | Some x \<Rightarrow> x)"
  let ?st = "Cache_set key v ttl now nowCleanup st"
  {
    assume "nowCleanup \<le> t \<and> t \<le> ?e"
    then have "map_of ?st key = Some \<lparr>data = v, timestamp = now, expiresAt = ?e\<rparr>" "t \<le> ?e"
      using assms by (simp_all add: map_of_set_same)
    then show "fst (Cache_get key t ?st) = Some v"
      by (simp add: Cache_get_def)
  }
  {
    assume late: "?e < t"
    show none: "fst (Cache_get key t ?st) = None"
      using late assms by (simp add: Cache_get_def map_of_set_same)
    show gone: "map_of (snd (Cache_get key t ?st)) key = None"
      using late assms by (simp add: Cache_get_def map_of_set_same delete_conv')
    show "fst (Cache_has key t' (snd (Cache_get key t ?st))) = False"
      using gone by (simp add: has_absent)
  }
  {
    assume "map_of st key = Some item"
    then show "(fst (Cache_get key t st) = Some (data item)) = (t \<le> expiresAt item)"
      "(fst (Cache_get key t st) = None) = (\<not> t \<le> expiresAt item)"
      "fst (Cache_has key t st) = (t \<le> expiresAt item)"
      by (simp_all add: Cache_get_def Cache_has_def)
  }
qed

theorem cache_get_after_set_witness:
  "fst (Cache_get ''k'' 1500 (Cache_set ''k'' (7::nat) (Some 1000) 1000 1001 [])) = Some 7 \<and>
   fst (Cache_get ''k'' 2001 (Cache_set ''k'' (7::nat) (Some 1000) 1000 1001 [])) = None \<and>
   fst (Cache_has ''k'' 2002 (snd (Cache_get ''k'' 2001 (Cache_set ''k'' (7::nat) (Some 1000) 1000 1001 [])))) = False \<and>
   fst (Cache_get ''k'' 5 [(''k'', \<lparr>data = (7::nat), timestamp = 0, expiresAt = 5\<rparr>)]) = Some 7 \<and>
   fst (Cache_get ''k'' 6 [(''k'', \<lparr>data = (7::nat), timestamp = 0, expiresAt = 5\<rparr>)]) = None"
proof -
  have d: "distinct (map fst ([] :: (string \<times> nat CacheItem) list))" by simp
  have d2: "distinct (map fst [(''k'', \<lparr>data = (7::nat), timestamp = 0, expiresAt = 5\<rparr>)])" by simp
  show ?thesis
    using cache_get_after_set [OF d, where key = "''k''" and v = 7 and ttl = "Some 1000"
        and now = 1000 and nowCleanup = 1001 and t = 1500]
      cache_get_after_set [OF d, where key = "''k''" and v = 7 and ttl = "Some 1000"
        and now = 1000 and nowCleanup = 1001 and t = 2001 and t' = 2002]
      cache_get_after_set [OF d2, where key = "''k''" and t = 5
        and item = "\<lparr>data = (7::nat), timestamp = 0, expiresAt = 5\<rparr>"]
      cache_get_after_set [OF d2, where key = "''k''" and t = 6
        and item = "\<lparr>data = (7::nat), timestamp = 0, expiresAt = 5\<rparr>"]
    by simp
qed

text \<open>
  Claim C10. A read changes the storage in one way only: \<open>get\<close> (and \<open>has\<close>, which
  is \<open>get\<close>) deletes the entry of the key it reads when that entry has expired. An
  entry that has not expired stays as it is, with the same data, timestamp and expiry,
  and the entries of all other keys are untouched. Every entry found after the read
  was there before it, unchanged: a read writes nothing and extends no expiry.
\<close>

theorem cache_read_frame:
  "snd (Cache_get key now st) =
     (case map_of st key of
        None \<Rightarrow> st
      | Some item \<Rightarrow> if now > expiresAt item then AList.delete key st else st) \<and>
   snd (Cache_has key now st) = snd (Cache_get key now st) \<and>
   (map_of st key = Some item \<and> now \<le> expiresAt item \<longrightarrow>
      snd (Cache_get key now st) = st \<and> snd (Cache_has key now st) = st) \<and>
   (k \<noteq> key \<longrightarrow>
      map_of (snd (Cache_get key now st)) k = map_of st k \<and>
      map_of (snd (Cache_has key now st)) k = map_of st k) \<and>
   (map_of (snd (Cache_get key now st)) k = Some item' \<longrightarrow> map_of st k = Some item') \<and>
   (map_of st k = Some item' \<and> now \<le> expiresAt item' \<longrightarrow>
      map_of (snd (Cache_get key now st)) k = Some item')"
proof -
  have get: "snd (Cache_get key now st) =
     (case map_of st key of
        None \<Rightarrow> st
      | Some item \<Rightarrow> if now > expiresAt item then AList.delete key st else st)"
    by (simp add: Cache_get_def split: option.splits)
  have has: "snd (Cache_has key now st) = snd (Cache_get key now st)"
    by (simp add: Cache_has_def split: prod.splits)
  have kept: "snd (Cache_get key now st) = st"
    if "map_of st key = Some item" "now \<le> expiresAt item"
    using that by (simp add: get)
  have others: "map_of (snd (Cache_get key now st)) k = map_of st k" if "k \<noteq> key"
    using that by (simp add: get delete_conv' split: option.splits)
  have old: "map_of st k = Some item'" if "map_of (snd (Cache_get key now st)) k = Some item'"
    using that by (cases "k = key") (auto simp: get delete_conv' split: option.splits if_splits)
  have fresh: "map_of (snd (Cache_get key now st)) k = Some item'"
    if "map_of st k = Some item'" "now \<le> expiresAt item'"
    using that by (cases "k = key") (auto simp: get delete_conv' split: option.splits)
  show ?thesis
    using get has kept others old fresh by simp
qed

theorem cache_read_frame_witness:
  "snd (Cache_get ''a'' 5 [(''a'', \<lparr>data = (1::nat), timestamp = 0, expiresAt = 5\<rparr>),
                           (''b'', \<lparr>data = 2, timestamp = 0, expiresAt = 3\<rparr>)]) =
     [(''a'', \<lparr>data = 1, timestamp = 0, expiresAt = 5\<rparr>), (''b'', \<lparr>data = 2, timestamp = 0, expiresAt = 3\<rparr>)] \<and>
   map_of (snd (Cache_has ''b'' 5 [(''a'', \<lparr>data = (1::nat), timestamp = 0, expiresAt = 5\<rparr>),
                           (''b'', \<lparr>data = 2, timestamp = 0, expiresAt = 3\<rparr>)])) ''a'' =
     Some \<lparr>data = 1, timestamp = 0, expiresAt = 5\<rparr>"
  using cache_read_frame [where key = "''a''" and now = 5
      and st = "[(''a'', \<lparr>data = (1::nat), timestamp = 0, expiresAt = 5\<rparr>),
                 (''b'', \<lparr>data = 2, timestamp = 0, expiresAt = 3\<rparr>)]"
      and item = "\<lparr>data = (1::nat), timestamp = 0, expiresAt = 5\<rparr>"]
    cache_read_frame [where key = "''b''" and now = 5 and k = "''a''"
      and st = "[(''a'', \<lparr>data = (1::nat), timestamp = 0, expiresAt = 5\<rparr>),
                 (''b'', \<lparr>data = 2, timestamp = 0, expiresAt = 3\<rparr>)]"]
  by simp

section \<open>The classifier\<close>

text \<open>On an error object no read raises, and the classifier is the chain of tests of
  the source.\<close>

lemma handleApiError_JSObject:
  "handleApiError (JSObject e) ctx =
     (if instanceofTypeError e \<and> includes_s (js_error.message e) ''fetch'' then
        Inr (createError NETWORK_ERROR
          ''Unable to connect to the server. Please check your internet connection.'' (JSObject e) True)
      else if js_error.status e \<noteq> None \<and> js_error.status e \<noteq> Some 0 then
        (if js_error.status e = Some 400 then
           Inr (createError API_ERROR ''Invalid request. Please try again.'' (JSObject e) False)
         else if js_error.status e = Some 401 then
           Inr (createError API_ERROR ''Authentication failed. Please check your API key.'' (JSObject e) False)
         else if js_error.status e = Some 429 then
           Inr (createError API_ERROR ''Too many requests. Please wait a moment and try again.'' (JSObject e) True)
         else if js_error.status e = Some 500 then
           Inr (createError API_ERROR ''Server error. Please try again later.'' (JSObject e) True)
         else
           Inr (createError API_ERROR
             (''Server error ('' @ showNumber (the (js_error.status e)) @ ''). Please try again.'')
             (JSObject e) True))
      else if ctx = ''transcription'' then
        Inr (createError TRANSCRIPTION_ERROR
          ''Failed to transcribe audio. Please try recording again.'' (JSObject e) True)
      else if ctx = ''chat'' then
        Inr (createError CHAT_ERROR ''Failed to get AI response. Please try again.'' (JSObject e) True)
      else
        Inr (createError UNKNOWN_ERROR ''An unexpected error occurred. Please try again.'' (JSObject e) True))"
  by (cases "js_error.status e")
     (simp_all add: handleApiError_def classify_def networkTest_def properties_def
        messageIncludes_def truthy_def statusToString_def)

lemma networkTest_returns:
  "(\<exists>network. networkTest props = Inr network) =
     (isTypeError props \<longrightarrow>
        messageValue props \<noteq> MessageUndefined \<and> messageValue props \<noteq> MessageNull \<and>
        messageValue props \<noteq> MessageNoIncludes)"
  by (cases "messageValue props") (auto simp: networkTest_def messageIncludes_def)

lemma statusToString_returns:
  "(\<exists>shown. statusToString st = Inr shown) = (\<forall>t m. st \<noteq> StatusOther t (Inl m))"
proof (cases st)
  case (StatusOther t conv)
  then show ?thesis by (cases conv) (simp_all add: statusToString_def)
qed (simp_all add: statusToString_def)

lemma classify_returns:
  "(\<exists>appError. classify v props ctx = Inr appError) =
     (\<exists>network. networkTest props = Inr network \<and>
        (network \<or> \<not> truthy (statusValue props) \<or>
         (\<exists>shown. statusToString (statusValue props) = Inr shown)))"
proof (cases "networkTest props")
  case (Inl typeError)
  then show ?thesis by (simp add: classify_def)
next
  case (Inr network)
  show ?thesis
  proof (cases "statusToString (statusValue props)")
    case shown: (Inr shown)
    with Inr show ?thesis by (simp add: classify_def)
  next
    case raises: (Inl typeError)
    then have "statusValue props \<noteq> StatusNumber k" for k
      by (auto simp: statusToString_def)
    with Inr raises show ?thesis by (simp add: classify_def)
  qed
qed

text \<open>
  Claim C3, as stated, fails. \<open>handleApiError\<close> raises a \<open>TypeError\<close> on
  \<open>null\<close> and on \<open>undefined\<close> (the read of \<open>error.status\<close>), on a
  \<open>TypeError\<close> whose message is \<open>undefined\<close> (the read of \<open>.includes\<close>), and on
  an error whose status is a \<open>Symbol\<close> (the template literal of the default case).
\<close>

theorem handleApiError_null_throws:
  "handleApiError JSNull ''transcription'' = Inl (nullishPropertyError ''null'' ''status'') \<and>
   handleApiError JSUndefined ''transcription'' = Inl (nullishPropertyError ''undefined'' ''status'') \<and>
   handleApiError
     (JSOther \<lparr>isTypeError = True, nameValue = Some ''TypeError'', messageValue = MessageUndefined,
        statusValue = StatusUndefined\<rparr>) ''transcription'' =
     Inl (nullishPropertyError ''undefined'' ''includes'') \<and>
   handleApiError
     (JSOther \<lparr>isTypeError = False, nameValue = Some ''Error'', messageValue = MessageString ''failed'',
        statusValue = StatusOther True (Inl ''Cannot convert a Symbol value to a string'')\<rparr>)
     ''transcription'' =
     Inl (conversionError ''Cannot convert a Symbol value to a string'')"
  by (simp add: handleApiError_def classify_def networkTest_def messageIncludes_def truthy_def
      statusToString_def)

text \<open>
  Claim C3, amended. For every context, \<open>handleApiError\<close> returns an \<open>AppError\<close>
  \<^item> for every error object (a string as message, a status that is absent or an
    integer), and
  \<^item> for any other value with properties exactly when the first test does not raise
    and, unless that test takes the value or its status is falsy, the status converts
    to a string.
  The first test raises only for a \<open>TypeError\<close> whose message is \<open>undefined\<close>,
  \<open>null\<close> or without a callable \<open>includes\<close>; the conversion fails only for a
  status that is not a number and has no string.
\<close>

theorem handleApiError_total_on_objects:
  "(\<exists>appError. handleApiError (JSObject e) ctx = Inr appError) \<and>
   ((\<exists>appError. handleApiError (JSOther props) ctx = Inr appError) =
      (\<exists>network. networkTest props = Inr network \<and>
         (network \<or> \<not> truthy (statusValue props) \<or>
          (\<exists>shown. statusToString (statusValue props) = Inr shown)))) \<and>
   ((\<exists>network. networkTest props = Inr network) =
      (isTypeError props \<longrightarrow>
         messageValue props \<noteq> MessageUndefined \<and> messageValue props \<noteq> MessageNull \<and>
         messageValue props \<noteq> MessageNoIncludes)) \<and>
   ((\<exists>shown. statusToString (statusValue props) = Inr shown) =
      (\<forall>t m. statusValue props \<noteq> StatusOther t (Inl m)))"
proof (intro conjI)
  show "\<exists>appError. handleApiError (JSObject e) ctx = Inr appError"
    by (simp add: handleApiError_JSObject)
  show "(\<exists>appError. handleApiError (JSOther props) ctx = Inr appError) =
      (\<exists>network. networkTest props = Inr network \<and>
         (network \<or> \<not> truthy (statusValue props) \<or>
          (\<exists>shown. statusToString (statusValue props) = Inr shown)))"
    using classify_returns [of "JSOther props" props ctx] by (simp add: handleApiError_def)
  show "(\<exists>network. networkTest props = Inr network) =
      (isTypeError props \<longrightarrow>
         messageValue props \<noteq> MessageUndefined \<and> messageValue props \<noteq> MessageNull \<and>
         messageValue props \<noteq> MessageNoIncludes)"
    by (rule networkTest_returns)
  show "(\<exists>shown. statusToString (statusValue props) = Inr shown) =
      (\<forall>t m. statusValue props \<noteq> StatusOther t (Inl m))"
    by (rule statusToString_returns)
qed

theorem handleApiError_total_on_objects_witness:
  "(\<exists>appError. handleApiError (JSObject (httpError 503)) ''health'' = Inr appError) \<and>
   (\<exists>appError. handleApiError
      (JSOther \<lparr>isTypeError = True, nameValue = None, messageValue = MessageIncludes False,
         statusValue = StatusOther True (Inr ''teapot'')\<rparr>) ''health'' = Inr appError) \<and>
   (\<exists>appError. handleApiError
      (JSOther \<lparr>isTypeError = False, nameValue = None, messageValue = MessageUndefined,
         statusValue = StatusOther False (Inl ''Cannot convert a Symbol value to a string'')\<rparr>)
      ''health'' = Inr appError)"
  using handleApiError_total_on_objects [where e = "httpError 503" and ctx = "''health''"
      and props = "\<lparr>isTypeError = True, nameValue = None, messageValue = MessageIncludes False,
         statusValue = StatusOther True (Inr ''teapot'')\<rparr>"]
    handleApiError_total_on_objects [where ctx = "''health''"
      and props = "\<lparr>isTypeError = False, nameValue = None, messageValue = MessageUndefined,
         statusValue = StatusOther False (Inl ''Cannot convert a Symbol value to a string'')\<rparr>"]
  by (simp add: networkTest_def messageIncludes_def truthy_def statusToString_def)

lemma classify_status:
  assumes "\<not> (instanceofTypeError e \<and> includes_s (js_error.message e) ''fetch'')"
    and "js_error.status e = Some n" and "n \<noteq> 0"
  shows "\<exists>a. handleApiError (JSObject e) ctx = Inr a \<and> type a = API_ERROR \<and>
           retryable a = (n \<noteq> 400 \<and> n \<noteq> 401) \<and> originalError a = JSObject e"
  using assms by (auto simp: handleApiError_JSObject createError_def)

lemma classify_status_other:
  assumes "networkTest props = Inr False"
    and "statusValue props = StatusNumber n" and "n \<noteq> 0"
  shows "\<exists>a. handleApiError (JSOther props) ctx = Inr a \<and> type a = API_ERROR \<and>
           retryable a = (n \<noteq> 400 \<and> n \<noteq> 401) \<and> originalError a = JSOther props"
  using assms
  by (auto simp: handleApiError_def classify_def truthy_def statusToString_def createError_def)

text \<open>
  What \<open>handleResponse\<close> raises for a response that is not OK: an error that carries
  the status, unless the body is \<open>null\<close>, where it is the \<open>TypeError\<close> of the read
  of \<open>errorData.detail\<close>, without a status.
\<close>

lemma handleResponse_not_ok:
  "\<not> ok r \<Longrightarrow> json r \<noteq> Inr JsonNull \<Longrightarrow>
   \<exists>e. handleResponse r = Inl e \<and> \<not> instanceofTypeError e \<and>
       js_error.status e = Some (Response.status r)"
  by (cases "json r") (auto simp: handleResponse_def Let_def split: json_value.splits)

lemma handleResponse_null_body:
  "\<not> ok r \<Longrightarrow> json r = Inr JsonNull \<Longrightarrow>
   handleResponse r = Inl (nullishPropertyError ''null'' ''detail'')"
  by (simp add: handleResponse_def)

text \<open>
  Claim C4. A caught error that carries an HTTP status (a \<open>status\<close> that is a
  number other than 0) and that the first test has not taken as a network error is an
  \<open>API_ERROR\<close>, not retryable for 400 and 401 and retryable for 429, 500 and every
  other status; this for an error object and for any other value with properties. A
  capture failure named \<open>NotAllowedError\<close> is a \<open>MICROPHONE_ERROR\<close> that is not
  retryable.
\<close>

theorem classify_http_status:
  "(\<not> (instanceofTypeError e \<and> includes_s (js_error.message e) ''fetch'') \<and>
      js_error.status e = Some n \<and> n \<noteq> 0 \<longrightarrow>
      (\<exists>a. handleApiError (JSObject e) ctx = Inr a \<and> type a = API_ERROR \<and>
           retryable a = (n \<noteq> 400 \<and> n \<noteq> 401))) \<and>
   (networkTest props = Inr False \<and> statusValue props = StatusNumber n \<and> n \<noteq> 0 \<longrightarrow>
      (\<exists>a. handleApiError (JSOther props) ctx = Inr a \<and> type a = API_ERROR \<and>
           retryable a = (n \<noteq> 400 \<and> n \<noteq> 401))) \<and>
   (name m = ''NotAllowedError'' \<longrightarrow>
      (\<exists>a. handleMicrophoneError (JSObject m) = Inr a \<and> type a = MICROPHONE_ERROR \<and>
           retryable a = False))"
proof (intro conjI impI)
  assume "\<not> (instanceofTypeError e \<and> includes_s (js_error.message e) ''fetch'') \<and>
      js_error.status e = Some n \<and> n \<noteq> 0"
  then show "\<exists>a. handleApiError (JSObject e) ctx = Inr a \<and> type a = API_ERROR \<and>
           retryable a = (n \<noteq> 400 \<and> n \<noteq> 401)"
    using classify_status [of e n ctx] by auto
next
  assume "networkTest props = Inr False \<and> statusValue props = StatusNumber n \<and> n \<noteq> 0"
  then show "\<exists>a. handleApiError (JSOther props) ctx = Inr a \<and> type a = API_ERROR \<and>
           retryable a = (n \<noteq> 400 \<and> n \<noteq> 401)"
    using classify_status_other [of props n ctx] by auto
next
  assume "name m = ''NotAllowedError''"
  then show "\<exists>a. handleMicrophoneError (JSObject m) = Inr a \<and> type a = MICROPHONE_ERROR \<and>
           retryable a = False"
    by (simp add: handleMicrophoneError_def classifyMicrophone_def properties_def createError_def)
qed

theorem classify_http_status_witness:
  "(\<exists>a. handleApiError (JSObject (httpError 401)) ''chat'' = Inr a \<and> type a = API_ERROR \<and> retryable a = False) \<and>
   (\<exists>a. handleApiError (JSObject (httpError 429)) ''chat'' = Inr a \<and> type a = API_ERROR \<and> retryable a = True) \<and>
   (\<exists>a. handleApiError (JSObject (httpError 503)) ''chat'' = Inr a \<and> type a = API_ERROR \<and> retryable a = True) \<and>
   (\<exists>a. handleApiError (JSObject (httpError 400)) ''chat'' = Inr a \<and> type a = API_ERROR \<and> retryable a = False) \<and>
   (\<exists>a. handleApiError (JSObject (httpError 500)) ''chat'' = Inr a \<and> type a = API_ERROR \<and> retryable a = True) \<and>
   (\<exists>a. handleApiError (JSOther \<lparr>isTypeError = True, nameValue = None,
        messageValue = MessageIncludes False, statusValue = StatusNumber 401\<rparr>) ''chat'' = Inr a \<and>
        type a = API_ERROR \<and> retryable a = False) \<and>
   (\<exists>a. handleMicrophoneError (JSObject \<lparr>instanceofTypeError = False, name = ''NotAllowedError'',
        message = ''Permission denied'', status = None\<rparr>) = Inr a \<and> type a = MICROPHONE_ERROR \<and> retryable a = False)"
  using classify_http_status [where e = "httpError 401" and n = 401 and ctx = "''chat''"
      and props = "\<lparr>isTypeError = True, nameValue = None,
        messageValue = MessageIncludes False, statusValue = StatusNumber 401\<rparr>"
      and m = "\<lparr>instanceofTypeError = False, name = ''NotAllowedError'',
        message = ''Permission denied'', status = None\<rparr>"]
    classify_http_status [where e = "httpError 429" and n = 429 and ctx = "''chat''"]
    classify_http_status [where e = "httpError 503" and n = 503 and ctx = "''chat''"]
    classify_http_status [where e = "httpError 400" and n = 400 and ctx = "''chat''"]
    classify_http_status [where e = "httpError 500" and n = 500 and ctx = "''chat''"]
  by (simp add: httpError_def networkTest_def messageIncludes_def)

text \<open>
  Claim C2, as stated, fails: a \<open>fetch\<close> that the timer aborts rejects with an
  \<open>AbortError\<close>, and in \<open>transcribeAudio\<close> the classifier makes it a
  \<open>TRANSCRIPTION_ERROR\<close>, not a \<open>NETWORK_ERROR\<close>.
\<close>

theorem timeout_is_not_network_error:
  "fetchWithTimeout 30000
     \<lparr>settles = Resolved \<lparr>status = 200, statusText = ''OK'',
          json = Inr (JsonObject \<lparr>detail = [], transcript = [], response = []\<rparr>)\<rparr>,
      after = 30001\<rparr> = Inl abortError \<and>
   map_sum id type (handleApiError (JSObject abortError) ''transcription'') = Inr TRANSCRIPTION_ERROR \<and>
   map_sum id type (handleApiError (JSObject abortError) ''transcription'') \<noteq> Inr NETWORK_ERROR"
  by (simp add: fetchWithTimeout_def handleApiError_JSObject abortError_def createError_def)

text \<open>
  Claim C2, amended. A request still in flight when the timeout has passed is aborted,
  and the classifier makes of its failure a retryable \<open>AppError\<close> whose type follows
  the context: \<open>TRANSCRIPTION_ERROR\<close> for a transcription, \<open>CHAT_ERROR\<close> for a
  chat, \<open>UNKNOWN_ERROR\<close> otherwise.
\<close>

theorem timeout_classified_by_context:
  assumes "timeout < after f"
  shows "fetchWithTimeout timeout f = Inl abortError \<and>
    (\<exists>a. handleApiError (JSObject abortError) ctx = Inr a \<and>
       type a = (if ctx = ''transcription'' then TRANSCRIPTION_ERROR
                 else if ctx = ''chat'' then CHAT_ERROR else UNKNOWN_ERROR) \<and>
       retryable a = True \<and> originalError a = JSObject abortError)"
  using assms
  by (simp add: fetchWithTimeout_def handleApiError_JSObject abortError_def createError_def)

theorem timeout_classified_by_context_witness:
  "fetchWithTimeout 30000 \<lparr>settles = Rejected (httpError 500), after = 30001\<rparr> = Inl abortError \<and>
    (\<exists>a. handleApiError (JSObject abortError) ''chat'' = Inr a \<and>
       type a = CHAT_ERROR \<and> retryable a = True)"
proof -
  have h: "(30000::nat) < after \<lparr>settles = Rejected (httpError 500), after = 30001\<rparr>" by simp
  show ?thesis using timeout_classified_by_context [OF h, of "''chat''"] by auto
qed

section \<open>The retry loop\<close>

lemma classify_object:
  "\<exists>appError. handleApiError (JSObject e) ctx = Inr appError"
  by (simp add: handleApiError_JSObject)

lemma requestLoop_failure:
  assumes "int attempt \<le> retryAttempts"
    and "request cfg op (net attempt) = Inl e"
    and "handleApiError (JSObject e) (context_of op) = Inr appError"
  shows "requestLoop cfg op net retryAttempts clk h b attempt w =
    (if int attempt = retryAttempts \<or> \<not> retryable appError
     then (Inl (App appError), w\<lparr>trace := trace w @ [Fetch (url cfg op) b]\<rparr>)
     else requestLoop cfg op net retryAttempts clk h b (Suc attempt)
            (w\<lparr>trace := trace w @ [Fetch (url cfg op) b, Sleep (getRetryDelay attempt)]\<rparr>))"
  using assms
  by (subst requestLoop.simps) (auto simp: shouldRetry_def Let_def)

lemma requestLoop_success:
  assumes "int attempt \<le> retryAttempts"
    and "request cfg op (net attempt) = Inr result"
  shows "requestLoop cfg op net retryAttempts clk h b attempt w =
    (Inr result, w\<lparr>trace := trace w @ [Fetch (url cfg op) b],
                    storage := cacheResult op h result clk (storage w)\<rparr>)"
  using assms
  by (subst requestLoop.simps) (simp add: Let_def)

lemma requestLoop_trace:
  "int attempt \<le> retryAttempts \<Longrightarrow>
   \<exists>rest. trace (snd (requestLoop cfg op net retryAttempts clk h b attempt w)) =
            trace w @ Fetch (url cfg op) b # rest \<and>
          (\<forall>ev \<in> set rest. ev = Fetch (url cfg op) b \<or> (\<exists>ms. ev = Sleep ms))"
proof (induction cfg op net retryAttempts clk h b attempt w rule: requestLoop.induct)
  case (1 cfg op net retryAttempts clk h b attempt w)
  show ?case
  proof (cases "request cfg op (net attempt)")
    case (Inr result)
    with "1.prems" show ?thesis by (simp add: requestLoop_success)
  next
    case (Inl e)
    obtain appError where a: "handleApiError (JSObject e) (context_of op) = Inr appError"
      using classify_object by blast
    show ?thesis
    proof (cases "int attempt = retryAttempts \<or> \<not> retryable appError")
      case True
      with "1.prems" Inl a show ?thesis by (simp add: requestLoop_failure)
    next
      case False
      then have cont: "\<not> (int attempt = retryAttempts \<or> \<not> shouldRetry appError attempt retryAttempts)"
        using "1.prems" by (auto simp: shouldRetry_def)
      have next_ok: "int (Suc attempt) \<le> retryAttempts" using False "1.prems" by simp
      let ?w' = "w\<lparr>trace := trace w @ [Fetch (url cfg op) b]\<rparr>\<lparr>trace := trace (w\<lparr>trace := trace w @ [Fetch (url cfg op) b]\<rparr>) @ [Sleep (getRetryDelay attempt)]\<rparr>"
      from "1.IH" [OF "1.prems" refl Inl a cont next_ok]
      obtain rest where r: "trace (snd (requestLoop cfg op net retryAttempts clk h b (Suc attempt) ?w')) =
            trace ?w' @ Fetch (url cfg op) b # rest"
          "\<forall>ev \<in> set rest. ev = Fetch (url cfg op) b \<or> (\<exists>ms. ev = Sleep ms)"
        by blast
      have eq: "requestLoop cfg op net retryAttempts clk h b attempt w =
                requestLoop cfg op net retryAttempts clk h b (Suc attempt) ?w'"
        using "1.prems" Inl a False by (simp add: requestLoop_failure)
      show ?thesis
        unfolding eq using r
        by (intro exI [of _ "Sleep (getRetryDelay attempt) # Fetch (url cfg op) b # rest"]) auto
    qed
  qed
qed


text \<open>
  A response whose body is \<open>null\<close>: the attempt fails with the \<open>TypeError\<close> of the
  property read, whatever the status, and the classifier makes of it a retryable error
  of the context.
\<close>

lemma request_null_body:
  assumes "after f \<le> API_TIMEOUT cfg" and "settles f = Resolved r" and "json r = Inr JsonNull"
  shows "request cfg op f =
    Inl (nullishPropertyError ''null'' (if ok r then resultField op else ''detail''))"
  using assms
  by (simp add: request_def fetchWithTimeout_def handleResponse_def)

lemma null_body_is_retryable:
  "prop \<in> {''detail'', ''transcript'', ''response''} \<Longrightarrow>
   handleApiError (JSObject (nullishPropertyError ''null'' prop)) (context_of op) =
     Inr (createError (case op of Transcription \<Rightarrow> TRANSCRIPTION_ERROR | Chat \<Rightarrow> CHAT_ERROR)
            (case op of
               Transcription \<Rightarrow> ''Failed to transcribe audio. Please try recording again.''
             | Chat \<Rightarrow> ''Failed to get AI response. Please try again.'')
            (JSObject (nullishPropertyError ''null'' prop)) True)"
  by (cases op) (auto simp: handleApiError_JSObject nullishPropertyError_def context_of_def)

lemma rethrow_App: "rethrow ctx (App appError) = App appError"
  by (simp add: rethrow_def)

text \<open>
  Claim C1. In the loop of \<open>transcribeAudio\<close> and in that of \<open>sendChatMessage\<close>,
  when the request of an attempt within the budget fails, the classifier gives an
  \<open>AppError\<close>, and
  \<^item> if the attempt is the last one (\<open>attempt = retryAttempts\<close>) or the error is not
    retryable, the loop throws that error after this one request, with no wait, and the
    outer \<open>catch\<close> throws it again as it is;
  \<^item> otherwise the loop sleeps \<open>min (1000 * 2 ^ attempt) 10000\<close> ms and goes on with
    the next attempt, whose request has the same URL and the same body; every later
    call of the loop is such a request or a sleep, so the audio is not processed again.
  The delays of the attempts 0, 1, 2, 3 and 10 are 1000, 2000, 4000, 8000 and 10000 ms.
\<close>

theorem retry_decision:
  assumes "int attempt \<le> retryAttempts"
    and "request cfg op (net attempt) = Inl e"
  shows "\<exists>appError. handleApiError (JSObject e) (context_of op) = Inr appError \<and>
    (int attempt = retryAttempts \<or> \<not> retryable appError \<longrightarrow>
       requestLoop cfg op net retryAttempts clk h b attempt w =
         (Inl (App appError), w\<lparr>trace := trace w @ [Fetch (url cfg op) b]\<rparr>) \<and>
       rethrow (context_of op) (App appError) = App appError) \<and>
    (\<not> (int attempt = retryAttempts \<or> \<not> retryable appError) \<longrightarrow>
       requestLoop cfg op net retryAttempts clk h b attempt w =
         requestLoop cfg op net retryAttempts clk h b (Suc attempt)
           (w\<lparr>trace := trace w @ [Fetch (url cfg op) b, Sleep (min (1000 * 2 ^ attempt) 10000)]\<rparr>) \<and>
       (\<exists>rest. trace (snd (requestLoop cfg op net retryAttempts clk h b attempt w)) =
            trace w @ [Fetch (url cfg op) b, Sleep (min (1000 * 2 ^ attempt) 10000),
                       Fetch (url cfg op) b] @ rest \<and>
          (\<forall>ev \<in> set rest. ev = Fetch (url cfg op) b \<or> (\<exists>ms. ev = Sleep ms)))) \<and>
    getRetryDelay attempt = min (1000 * 2 ^ attempt) 10000 \<and>
    map getRetryDelay [0, 1, 2, 3, 10] = [1000, 2000, 4000, 8000, 10000]"
proof -
  obtain appError where a: "handleApiError (JSObject e) (context_of op) = Inr appError"
    using classify_object by blast
  let ?loop = "requestLoop cfg op net retryAttempts clk h b"
  let ?w' = "w\<lparr>trace := trace w @ [Fetch (url cfg op) b, Sleep (min (1000 * 2 ^ attempt) 10000)]\<rparr>"
  have stop: "?loop attempt w = (Inl (App appError), w\<lparr>trace := trace w @ [Fetch (url cfg op) b]\<rparr>)"
    if "int attempt = retryAttempts \<or> \<not> retryable appError"
    using that assms a by (simp add: requestLoop_failure)
  have go: "?loop attempt w = ?loop (Suc attempt) ?w'"
    if "\<not> (int attempt = retryAttempts \<or> \<not> retryable appError)"
    using that assms a by (simp add: requestLoop_failure getRetryDelay_def)
  have again: "\<exists>rest. trace (snd (?loop attempt w)) =
            trace w @ [Fetch (url cfg op) b, Sleep (min (1000 * 2 ^ attempt) 10000),
                       Fetch (url cfg op) b] @ rest \<and>
          (\<forall>ev \<in> set rest. ev = Fetch (url cfg op) b \<or> (\<exists>ms. ev = Sleep ms))"
    if c: "\<not> (int attempt = retryAttempts \<or> \<not> retryable appError)"
  proof -
    from c assms(1) have "int (Suc attempt) \<le> retryAttempts" by simp
    from requestLoop_trace [OF this, of cfg op net clk h b ?w']
    show ?thesis unfolding go [OF c] by simp
  qed
  have delays: "map getRetryDelay [0, 1, 2, 3, 10] = [1000, 2000, 4000, 8000, 10000]"
    by (simp add: getRetryDelay_def)
  show ?thesis
    using a stop go again delays by (intro exI [of _ appError]) (simp add: rethrow_App getRetryDelay_def)
qed


lemma request_respond:
  "request exampleConfig op (respond s t) =
     (if 200 \<le> s \<and> s \<le> 299 then Inr \<lparr>detail = ''detail'', transcript = t, response = t\<rparr>
      else Inl \<lparr>instanceofTypeError = False, name = ''Error'', message = ''detail'', status = Some s\<rparr>)"
  by (simp add: request_def respond_def exampleConfig_def ENV_CONFIG_def fetchWithTimeout_def
      handleResponse_def ok_def)

theorem retry_decision_witness:
  "(\<exists>rest. trace (snd (requestLoop exampleConfig Chat (\<lambda>i. respond 503 []) 3 (clockAt 0) ''h''
                  (Json []) 1 emptyWorld)) =
      [Fetch ''http://localhost:8000/chat'' (Json []), Sleep 2000,
       Fetch ''http://localhost:8000/chat'' (Json [])] @ rest) \<and>
   requestLoop exampleConfig Chat (\<lambda>i. respond 401 []) 3 (clockAt 0) ''h'' (Json []) 0 emptyWorld =
     (Inl (App \<lparr>type = API_ERROR, message = ''Authentication failed. Please check your API key.'',
                originalError = JSObject \<lparr>instanceofTypeError = False, name = ''Error'',
                   message = ''detail'', status = Some 401\<rparr>,
                retryable = False\<rparr>),
      \<lparr>storage = [], trace = [Fetch ''http://localhost:8000/chat'' (Json [])]\<rparr>) \<and>
   requestLoop exampleConfig Chat (\<lambda>i. respond 503 []) 3 (clockAt 0) ''h'' (Json []) 3 emptyWorld =
     (Inl (App \<lparr>type = API_ERROR, message = ''Server error (503). Please try again.'',
                originalError = JSObject \<lparr>instanceofTypeError = False, name = ''Error'',
                   message = ''detail'', status = Some 503\<rparr>,
                retryable = True\<rparr>),
      \<lparr>storage = [], trace = [Fetch ''http://localhost:8000/chat'' (Json [])]\<rparr>)"
proof -
  have le1: "int 1 \<le> 3" and le0: "int 0 \<le> 3" and le3: "int 3 \<le> 3" by simp_all
  have r503: "request exampleConfig Chat ((\<lambda>i. respond 503 []) n) =
      Inl \<lparr>instanceofTypeError = False, name = ''Error'', message = ''detail'', status = Some 503\<rparr>" for n :: nat
    by (simp add: request_respond)
  have r401: "request exampleConfig Chat ((\<lambda>i. respond 401 []) 0) =
      Inl \<lparr>instanceofTypeError = False, name = ''Error'', message = ''detail'', status = Some 401\<rparr>"
    by (simp add: request_respond)
  have s503: "showNumber 503 = ''503''"
    by (simp add: showNumber_def toStringRadix.simps digitChar_def)
  have u: "url exampleConfig Chat = ''http://localhost:8000/chat''"
    by (simp add: url_def exampleConfig_def ENV_CONFIG_def)
  show ?thesis
    using retry_decision [OF le1 r503, where clk = "clockAt 0" and h = "''h''"
        and b = "Json []" and w = emptyWorld]
      retry_decision [OF le0 r401, where clk = "clockAt 0" and h = "''h''"
        and b = "Json []" and w = emptyWorld]
      retry_decision [OF le3 r503, where clk = "clockAt 0" and h = "''h''"
        and b = "Json []" and w = emptyWorld]
    by (auto simp: handleApiError_JSObject createError_def context_of_def emptyWorld_def u s503 Let_def)
qed

lemma requests_append: "requests (xs @ ys) = requests xs + requests ys"
  by (simp add: requests_def)

lemma sleeps_append: "sleeps (xs @ ys) = sleeps xs + sleeps ys"
  by (simp add: sleeps_def)

lemma processAudio_calls:
  "requests (snd (processAudio p audioBlob)) = 0 \<and> sleeps (snd (processAudio p audioBlob)) = 0"
  by (simp add: processAudio_def Let_def requests_def sleeps_def)

lemma transcribeAudio_miss:
  assumes "fst (getCachedTranscription (createHash (blobText p) (BlobContent audioBlob))
             (lookupAt clk) (storage w)) \<in> {None, Some []}"
  shows "transcribeAudio p cfg net clk audioBlob retryAttempts w =
    (case requestLoop cfg Transcription net
            (case retryAttempts of None \<Rightarrow> RETRY_ATTEMPTS cfg | Some k \<Rightarrow> k) clk
            (createHash (blobText p) (BlobContent audioBlob))
            (FormData (fst (processAudio p audioBlob)) ''recording.wav'') 0
            (w\<lparr>storage := snd (getCachedTranscription (createHash (blobText p) (BlobContent audioBlob))
                   (lookupAt clk) (storage w)),
               trace := trace w @ snd (processAudio p audioBlob)\<rparr>) of
       (Inr result, w3) \<Rightarrow> (Inr (transcript result), w3)
     | (Inl t, w3) \<Rightarrow> (Inl (rethrow ''transcription'' t), w3))"
  using assms
  by (auto simp: transcribeAudio_def Let_def split: prod.splits)

lemma transcribeAudio_hit:
  assumes "fst (getCachedTranscription (createHash (blobText p) (BlobContent audioBlob))
             (lookupAt clk) (storage w)) = Some t" and "t \<noteq> []"
  shows "transcribeAudio p cfg net clk audioBlob retryAttempts w =
    (Inr t, w\<lparr>storage := snd (getCachedTranscription (createHash (blobText p) (BlobContent audioBlob))
                   (lookupAt clk) (storage w))\<rparr>)"
  using assms
  by (auto simp: transcribeAudio_def Let_def split: prod.splits)

lemma sendChatMessage_miss:
  assumes "fst (getCachedChatResponse (createHash (blobText p) (Text msg))
             (lookupAt clk) (storage w)) \<in> {None, Some []}"
  shows "sendChatMessage p cfg net clk msg retryAttempts w =
    (case requestLoop cfg Chat net
            (case retryAttempts of None \<Rightarrow> RETRY_ATTEMPTS cfg | Some k \<Rightarrow> k) clk
            (createHash (blobText p) (Text msg)) (Json msg) 0
            (w\<lparr>storage := snd (getCachedChatResponse (createHash (blobText p) (Text msg))
                   (lookupAt clk) (storage w))\<rparr>) of
       (Inr result, w3) \<Rightarrow> (Inr (response result), w3)
     | (Inl t, w3) \<Rightarrow> (Inl (rethrow ''chat'' t), w3))"
  using assms
  by (auto simp: sendChatMessage_def Let_def split: prod.splits)

lemma sendChatMessage_hit:
  assumes "fst (getCachedChatResponse (createHash (blobText p) (Text msg))
             (lookupAt clk) (storage w)) = Some t" and "t \<noteq> []"
  shows "sendChatMessage p cfg net clk msg retryAttempts w =
    (Inr t, w\<lparr>storage := snd (getCachedChatResponse (createHash (blobText p) (Text msg))
                   (lookupAt clk) (storage w))\<rparr>)"
  using assms
  by (auto simp: sendChatMessage_def Let_def split: prod.splits)

text \<open>
  Claim C5. A call of \<open>transcribeAudio\<close> or \<open>sendChatMessage\<close> that is not served
  from the cache, with a budget of at least 0, whose first request fails with an error
  that the classifier makes not retryable: the call throws that \<open>AppError\<close>, it has
  issued exactly one request (the trace grows by the audio steps and one \<open>Fetch\<close>)
  and it has not slept.
\<close>

theorem non_retryable_first_failure:
  "(fst (getCachedTranscription (createHash (blobText p) (BlobContent audioBlob))
          (lookupAt clk) (storage w)) \<in> {None, Some []} \<and>
    0 \<le> (case retryAttempts of None \<Rightarrow> RETRY_ATTEMPTS cfg | Some k \<Rightarrow> k) \<and>
    request cfg Transcription (net 0) = Inl e \<and>
    handleApiError (JSObject e) ''transcription'' = Inr appError \<and> \<not> retryable appError \<longrightarrow>
      fst (transcribeAudio p cfg net clk audioBlob retryAttempts w) = Inl (App appError) \<and>
      trace (snd (transcribeAudio p cfg net clk audioBlob retryAttempts w)) =
        trace w @ snd (processAudio p audioBlob) @
        [Fetch (API_URL cfg @ ''/transcribe'') (FormData (fst (processAudio p audioBlob)) ''recording.wav'')] \<and>
      requests (trace (snd (transcribeAudio p cfg net clk audioBlob retryAttempts w))) =
        requests (trace w) + 1 \<and>
      sleeps (trace (snd (transcribeAudio p cfg net clk audioBlob retryAttempts w))) =
        sleeps (trace w)) \<and>
   (fst (getCachedChatResponse (createHash (blobText p) (Text msg))
          (lookupAt clk) (storage w)) \<in> {None, Some []} \<and>
    0 \<le> (case retryAttempts of None \<Rightarrow> RETRY_ATTEMPTS cfg | Some k \<Rightarrow> k) \<and>
    request cfg Chat (net 0) = Inl e \<and>
    handleApiError (JSObject e) ''chat'' = Inr appError \<and> \<not> retryable appError \<longrightarrow>
      fst (sendChatMessage p cfg net clk msg retryAttempts w) = Inl (App appError) \<and>
      trace (snd (sendChatMessage p cfg net clk msg retryAttempts w)) =
        trace w @ [Fetch (API_URL cfg @ ''/chat'') (Json msg)] \<and>
      requests (trace (snd (sendChatMessage p cfg net clk msg retryAttempts w))) =
        requests (trace w) + 1 \<and>
      sleeps (trace (snd (sendChatMessage p cfg net clk msg retryAttempts w))) =
        sleeps (trace w))"
proof (intro conjI impI)
  let ?n = "case retryAttempts of None \<Rightarrow> RETRY_ATTEMPTS cfg | Some k \<Rightarrow> k"
  {
    assume h: "fst (getCachedTranscription (createHash (blobText p) (BlobContent audioBlob))
          (lookupAt clk) (storage w)) \<in> {None, Some []} \<and> 0 \<le> ?n \<and>
      request cfg Transcription (net 0) = Inl e \<and>
      handleApiError (JSObject e) ''transcription'' = Inr appError \<and> \<not> retryable appError"
    let ?w2 = "w\<lparr>storage := snd (getCachedTranscription (createHash (blobText p) (BlobContent audioBlob))
                   (lookupAt clk) (storage w)),
               trace := trace w @ snd (processAudio p audioBlob)\<rparr>"
    let ?b = "FormData (fst (processAudio p audioBlob)) ''recording.wav''"
    from h have loop: "requestLoop cfg Transcription net ?n clk
        (createHash (blobText p) (BlobContent audioBlob)) ?b 0 ?w2 =
        (Inl (App appError), ?w2\<lparr>trace := trace ?w2 @ [Fetch (url cfg Transcription) ?b]\<rparr>)"
      by (subst requestLoop_failure [where e = e and appError = appError])
         (simp_all add: context_of_def)
    from h have eq: "transcribeAudio p cfg net clk audioBlob retryAttempts w =
        (Inl (App appError), ?w2\<lparr>trace := trace ?w2 @ [Fetch (url cfg Transcription) ?b]\<rparr>)"
      by (simp add: transcribeAudio_miss loop rethrow_App)
    show "fst (transcribeAudio p cfg net clk audioBlob retryAttempts w) = Inl (App appError)"
      by (simp add: eq)
    show "trace (snd (transcribeAudio p cfg net clk audioBlob retryAttempts w)) =
        trace w @ snd (processAudio p audioBlob) @ [Fetch (API_URL cfg @ ''/transcribe'') ?b]"
      by (simp add: eq url_def)
    show "requests (trace (snd (transcribeAudio p cfg net clk audioBlob retryAttempts w))) =
        requests (trace w) + 1"
      using processAudio_calls [of p audioBlob]
      by (simp add: eq requests_append) (simp add: requests_def)
    show "sleeps (trace (snd (transcribeAudio p cfg net clk audioBlob retryAttempts w))) =
        sleeps (trace w)"
      using processAudio_calls [of p audioBlob]
      by (simp add: eq sleeps_append) (simp add: sleeps_def)
  }
  {
    assume h: "fst (getCachedChatResponse (createHash (blobText p) (Text msg))
          (lookupAt clk) (storage w)) \<in> {None, Some []} \<and> 0 \<le> ?n \<and>
      request cfg Chat (net 0) = Inl e \<and>
      handleApiError (JSObject e) ''chat'' = Inr appError \<and> \<not> retryable appError"
    let ?w1 = "w\<lparr>storage := snd (getCachedChatResponse (createHash (blobText p) (Text msg))
                   (lookupAt clk) (storage w))\<rparr>"
    from h have loop: "requestLoop cfg Chat net ?n clk
        (createHash (blobText p) (Text msg)) (Json msg) 0 ?w1 =
        (Inl (App appError), ?w1\<lparr>trace := trace ?w1 @ [Fetch (url cfg Chat) (Json msg)]\<rparr>)"
      by (subst requestLoop_failure [where e = e and appError = appError])
         (simp_all add: context_of_def)
    from h have eq: "sendChatMessage p cfg net clk msg retryAttempts w =
        (Inl (App appError), ?w1\<lparr>trace := trace ?w1 @ [Fetch (url cfg Chat) (Json msg)]\<rparr>)"
      by (simp add: sendChatMessage_miss loop rethrow_App)
    show "fst (sendChatMessage p cfg net clk msg retryAttempts w) = Inl (App appError)"
      by (simp add: eq)
    show "trace (snd (sendChatMessage p cfg net clk msg retryAttempts w)) =
        trace w @ [Fetch (API_URL cfg @ ''/chat'') (Json msg)]"
      by (simp add: eq url_def)
    show "requests (trace (snd (sendChatMessage p cfg net clk msg retryAttempts w))) =
        requests (trace w) + 1"
      by (simp add: eq requests_append) (simp add: requests_def)
    show "sleeps (trace (snd (sendChatMessage p cfg net clk msg retryAttempts w))) =
        sleeps (trace w)"
      by (simp add: eq sleeps_append) (simp add: sleeps_def)
  }
qed


theorem non_retryable_first_failure_witness:
  "fst (transcribeAudio noWebAudio exampleConfig (\<lambda>i. respond 401 []) (clockAt 0) (recording 1)
          None emptyWorld) = Inl (App unauthorized) \<and>
   requests (trace (snd (transcribeAudio noWebAudio exampleConfig (\<lambda>i. respond 401 []) (clockAt 0)
          (recording 1) None emptyWorld))) = 1 \<and>
   sleeps (trace (snd (transcribeAudio noWebAudio exampleConfig (\<lambda>i. respond 401 []) (clockAt 0)
          (recording 1) None emptyWorld))) = 0 \<and>
   fst (sendChatMessage noWebAudio exampleConfig (\<lambda>i. respond 401 []) (clockAt 0) [104, 105]
          None emptyWorld) = Inl (App unauthorized) \<and>
   trace (snd (sendChatMessage noWebAudio exampleConfig (\<lambda>i. respond 401 []) (clockAt 0) [104, 105]
          None emptyWorld)) = [Fetch ''http://localhost:8000/chat'' (Json [104, 105])]"
proof -
  have miss: "fst (Cache_get k t (storage emptyWorld)) \<in> {None, Some []}" for k t
    by (simp add: Cache_get_def emptyWorld_def)
  have n: "0 \<le> (case None of None \<Rightarrow> RETRY_ATTEMPTS exampleConfig | Some k \<Rightarrow> k)"
    by (simp add: exampleConfig_def ENV_CONFIG_def)
  have r: "request exampleConfig op ((\<lambda>i. respond 401 []) 0) = Inl error401" for op
    by (simp add: request_respond error401_def)
  have c: "handleApiError (JSObject error401) ctx = Inr unauthorized" for ctx
    by (simp add: handleApiError_JSObject unauthorized_def error401_def)
  have nr: "\<not> retryable unauthorized"
    by (simp add: unauthorized_def createError_def)
  have "requests (trace emptyWorld) = 0" "sleeps (trace emptyWorld) = 0" "trace emptyWorld = []"
    by (simp_all add: requests_def sleeps_def emptyWorld_def)
  moreover have "API_URL exampleConfig = ''http://localhost:8000''"
    by (simp add: exampleConfig_def ENV_CONFIG_def)
  ultimately show ?thesis
    using non_retryable_first_failure [where p = noWebAudio and cfg = exampleConfig
        and net = "\<lambda>i. respond 401 []" and clk = "clockAt 0" and audioBlob = "recording 1"
        and msg = "[104, 105]" and retryAttempts = None and w = emptyWorld and e = error401
        and appError = unauthorized]
      miss n r c nr
    by (simp add: getCachedTranscription_def getCachedChatResponse_def processAudio_def
        recording_def size_b_def requests_def sleeps_def)
qed

section \<open>Two transcriptions of the same audio\<close>

lemma requestLoop_Inr:
  "requestLoop cfg op net retryAttempts clk h b attempt w = (Inr result, w') \<Longrightarrow>
   storage w' = cacheResult op h result clk (storage w)"
proof (induction cfg op net retryAttempts clk h b attempt w rule: requestLoop.induct)
  case (1 cfg op net retryAttempts clk h b attempt w)
  show ?case
  proof (cases "int attempt \<le> retryAttempts")
    case False
    with "1.prems" show ?thesis
      by (subst (asm) requestLoop.simps) (simp split: sum.splits)
  next
    case le: True
    show ?thesis
    proof (cases "request cfg op (net attempt)")
      case (Inr r)
      with le "1.prems" show ?thesis by (auto simp: requestLoop_success)
    next
      case (Inl e)
      obtain appError where a: "handleApiError (JSObject e) (context_of op) = Inr appError"
        using classify_object by blast
      show ?thesis
      proof (cases "int attempt = retryAttempts \<or> \<not> retryable appError")
        case True
        with le Inl a "1.prems" show ?thesis by (simp add: requestLoop_failure)
      next
        case False
        then have cont: "\<not> (int attempt = retryAttempts \<or> \<not> shouldRetry appError attempt retryAttempts)"
          using le by (auto simp: shouldRetry_def)
        let ?w' = "w\<lparr>trace := trace w @ [Fetch (url cfg op) b]\<rparr>\<lparr>trace := trace (w\<lparr>trace := trace w @ [Fetch (url cfg op) b]\<rparr>) @ [Sleep (getRetryDelay attempt)]\<rparr>"
        have eq: "requestLoop cfg op net retryAttempts clk h b attempt w =
                  requestLoop cfg op net retryAttempts clk h b (Suc attempt) ?w'"
          using le Inl a False by (simp add: requestLoop_failure)
        from "1.IH" [OF le refl Inl a cont] "1.prems" eq
        have "storage w' = cacheResult op h result clk (storage ?w')" by simp
        then show ?thesis by simp
      qed
    qed
  qed
qed

lemma distinct_get:
  "distinct (map fst st) \<Longrightarrow> distinct (map fst (snd (Cache_get key now st)))"
  by (simp add: Cache_get_def distinct_delete split: option.splits)

text \<open>
  A transcription repeated within the TTL is served from the cache when the transcript
  is not empty: the first call is not served from the cache and returns \<open>t\<close>, the
  second call reads the cache not before the cleanup of the first and not later than
  \<open>TRANSCRIPTION_TTL\<close> after its store. The hash of both calls is the same term. The
  second call returns \<open>t\<close> and leaves the world as it was: no request, no audio
  processing, no sleep, no change of the cache.
\<close>

lemma transcribe_again_cached:
  assumes d: "distinct (map fst (storage w))"
    and miss: "fst (getCachedTranscription (createHash (blobText p) (BlobContent audioBlob))
             (lookupAt clk1) (storage w)) \<in> {None, Some []}"
    and succ: "transcribeAudio p cfg net1 clk1 audioBlob attempts1 w = (Inr t, w1)"
    and ne: "t \<noteq> []"
    and time: "cleanupAt clk1 \<le> lookupAt clk2" "lookupAt clk2 \<le> storeAt clk1 + TRANSCRIPTION_TTL"
  shows "transcribeAudio p cfg net2 clk2 audioBlob attempts2 w1 = (Inr t, w1)"
proof -
  let ?h = "createHash (blobText p) (BlobContent audioBlob)"
  let ?key = "Cache_createKey ''transcription'' [?h]"
  let ?st = "snd (getCachedTranscription ?h (lookupAt clk1) (storage w))"
  let ?w2 = "w\<lparr>storage := ?st, trace := trace w @ snd (processAudio p audioBlob)\<rparr>"
  obtain r w3 where loop: "requestLoop cfg Transcription net1
            (case attempts1 of None \<Rightarrow> RETRY_ATTEMPTS cfg | Some k \<Rightarrow> k) clk1 ?h
            (FormData (fst (processAudio p audioBlob)) ''recording.wav'') 0 ?w2 = (r, w3)"
    by (cases "requestLoop cfg Transcription net1
            (case attempts1 of None \<Rightarrow> RETRY_ATTEMPTS cfg | Some k \<Rightarrow> k) clk1 ?h
            (FormData (fst (processAudio p audioBlob)) ''recording.wav'') 0 ?w2") auto
  from succ have "(case (r, w3) of (Inr result, w3) \<Rightarrow> (Inr (transcript result), w3)
       | (Inl t, w3) \<Rightarrow> (Inl (rethrow ''transcription'' t), w3)) = (Inr t, w1)"
    unfolding transcribeAudio_miss [OF miss] loop .
  then obtain result where res: "r = Inr result" "transcript result = t" "w3 = w1"
    by (cases r) auto
  from requestLoop_Inr [OF loop [unfolded res]]
  have st: "storage w1 = cacheTranscription ?h t (storeAt clk1) (cleanupAt clk1) ?st"
    using res by (simp add: cacheResult_def)
  have d': "distinct (map fst ?st)"
    using d by (simp add: getCachedTranscription_def distinct_get)
  have "map_of (storage w1) ?key =
      Some \<lparr>data = t, timestamp = storeAt clk1, expiresAt = storeAt clk1 + TRANSCRIPTION_TTL\<rparr>"
    using time by (simp add: st cacheTranscription_def map_of_set_same [OF d'])
  then have "Cache_get ?key (lookupAt clk2) (storage w1) = (Some t, storage w1)"
    using time by (simp add: Cache_get_def)
  then show ?thesis
    using ne by (simp add: transcribeAudio_hit getCachedTranscription_def)
qed


lemma hash_shortRecording:
  "createHash (blobText noWebAudio) (BlobContent shortRecording) = ''0''"
  by (simp add: createHash_def noWebAudio_def recording_def hashRound_def toStringRadix.simps
      digitChar_def shortRecording_def)

lemma processAudio_shortRecording:
  "processAudio noWebAudio shortRecording = (shortRecording, [ApplyNoiseReduction])"
  by (simp add: processAudio_def Let_def size_b_def recording_def applyNoiseReduction_def
      applyNoiseReduction_try_def noWebAudio_def shortRecording_def)

lemma silentLoop:
  "requestLoop exampleConfig Transcription silentNet (RETRY_ATTEMPTS exampleConfig) clk h b 0 w =
     (Inr \<lparr>detail = ''detail'', transcript = [], response = []\<rparr>,
      w\<lparr>trace := trace w @ [Fetch ''http://localhost:8000/transcribe'' b],
        storage := cacheTranscription h [] (storeAt clk) (cleanupAt clk) (storage w)\<rparr>)"
proof -
  have le: "int 0 \<le> RETRY_ATTEMPTS exampleConfig"
    by (simp add: exampleConfig_def ENV_CONFIG_def)
  have r: "request exampleConfig Transcription (silentNet 0) =
      Inr \<lparr>detail = ''detail'', transcript = [], response = []\<rparr>"
    by (simp add: silentNet_def request_respond)
  have u: "url exampleConfig Transcription = ''http://localhost:8000/transcribe''"
    by (simp add: url_def exampleConfig_def ENV_CONFIG_def)
  show ?thesis
    using requestLoop_success [where net = silentNet and attempt = 0, OF le r,
        where clk = clk and h = h and b = b and w = w]
    by (simp add: u cacheResult_def)
qed

lemma silentFirst_eval:
  "silentFirst =
     (Inr [],
      \<lparr>storage = [(''transcription:0'', \<lparr>data = [], timestamp = 200, expiresAt = 600200\<rparr>)],
       trace = [ApplyNoiseReduction,
                Fetch ''http://localhost:8000/transcribe'' (FormData shortRecording ''recording.wav'')]\<rparr>)"
proof -
  have miss: "fst (getCachedTranscription (createHash (blobText noWebAudio) (BlobContent shortRecording))
             (lookupAt (clockAt 0)) (storage emptyWorld)) \<in> {None, Some []}"
    by (simp add: getCachedTranscription_def Cache_get_def emptyWorld_def)
  have "silentFirst =
     (Inr [],
      \<lparr>storage = cacheTranscription ''0'' [] 200 200 [],
       trace = [ApplyNoiseReduction,
                Fetch ''http://localhost:8000/transcribe'' (FormData shortRecording ''recording.wav'')]\<rparr>)"
    unfolding silentFirst_def transcribeAudio_miss [OF miss]
    by (simp add: silentLoop hash_shortRecording processAudio_shortRecording)
       (simp add: getCachedTranscription_def Cache_get_def emptyWorld_def clockAt_def)
  then show ?thesis
    by (simp add: cacheTranscription_def Cache_set_def Cache_cleanup_def Cache_createKey_def
        TRANSCRIPTION_TTL_def)
qed

text \<open>
  Claim C7 at a recording of silence. The first call returns the empty transcript and
  caches it; 800 ms after the store, the second call finds the entry (\<open>get\<close> returns
  the empty string), takes it for a miss in \<open>if (cachedResult)\<close>, processes the audio
  again and issues one more request.
\<close>

theorem empty_transcript_is_requested_again:
  "fst silentFirst = Inr [] \<and>
   fst (getCachedTranscription (createHash (blobText noWebAudio) (BlobContent shortRecording))
          1000 (storage (snd silentFirst))) = Some [] \<and>
   fst silentSecond = Inr [] \<and>
   trace (snd silentSecond) =
     trace (snd silentFirst) @
     [ApplyNoiseReduction,
      Fetch ''http://localhost:8000/transcribe'' (FormData shortRecording ''recording.wav'')] \<and>
   requests (trace (snd silentSecond)) = requests (trace (snd silentFirst)) + 1"
proof -
  let ?w1 = "snd silentFirst"
  have hit: "getCachedTranscription (createHash (blobText noWebAudio) (BlobContent shortRecording))
          1000 (storage ?w1) = (Some [], storage ?w1)"
    by (simp add: silentFirst_eval hash_shortRecording getCachedTranscription_def Cache_get_def
        Cache_createKey_def)
  then have miss: "fst (getCachedTranscription (createHash (blobText noWebAudio) (BlobContent shortRecording))
             (lookupAt (clockAt 1000)) (storage ?w1)) \<in> {None, Some []}"
    by (simp add: clockAt_def)
  have l: "lookupAt (clockAt 1000) = 1000" by (simp add: clockAt_def)
  have second: "silentSecond =
     (Inr [],
      \<lparr>storage = cacheTranscription ''0'' [] 1200 1200 (storage ?w1),
       trace = trace ?w1 @ [ApplyNoiseReduction,
                Fetch ''http://localhost:8000/transcribe'' (FormData shortRecording ''recording.wav'')]\<rparr>)"
    unfolding silentSecond_def transcribeAudio_miss [OF miss]
    by (simp add: silentLoop processAudio_shortRecording l hit)
       (simp add: hash_shortRecording clockAt_def)
  show ?thesis
    using hit by (simp add: second silentFirst_eval requests_def)
qed

section \<open>The audio processor\<close>

lemma length_wavHeader: "length (wavHeader channels len rate) = 44"
  by (simp add: wavHeader_def ascii_def le16_def le32_def)

lemma wavHeader_rate_bytes:
  "wavHeader channels len rate ! 24 = ucast (of_nat rate :: 32 word)"
  "wavHeader channels len rate ! 25 = ucast (drop_bit 8 (of_nat rate :: 32 word))"
  "wavHeader channels len rate ! 26 = ucast (drop_bit 16 (of_nat rate :: 32 word))"
  "wavHeader channels len rate ! 27 = ucast (drop_bit 24 (of_nat rate :: 32 word))"
  by (simp_all add: wavHeader_def ascii_def le16_def le32_def)

lemma bytes_of_nat32:
  fixes x :: nat
  assumes "x < 4294967296"
  shows "x mod 256 + 256 * (x div 256 mod 256) + 65536 * (x div 65536 mod 256) +
         16777216 * (x div 16777216 mod 256) = x"
proof -
  define a where "a = x div 256"
  define b where "b = a div 256"
  define c where "c = b div 256"
  have x: "x = 256 * a + x mod 256" by (simp add: a_def)
  have a: "a = 256 * b + a mod 256" by (simp add: b_def)
  have b: "b = 256 * c + b mod 256" by (simp add: c_def)
  have b': "x div 65536 = b" by (simp add: a_def b_def div_mult2_eq)
  have c': "x div 16777216 = c" by (simp add: a_def b_def c_def div_mult2_eq)
  have "c < 256" using assms unfolding c' [symmetric] by simp
  then have c'': "c mod 256 = c" by simp
  have "x mod 256 + 256 * (a mod 256) + 65536 * (b mod 256) + 16777216 * c = x"
    using x a b by linarith
  then show ?thesis
    unfolding b' c' c'' a_def [symmetric] .
qed

lemma le32_value:
  fixes w :: "32 word"
  shows "unat (ucast w :: 8 word) + 256 * unat (ucast (drop_bit 8 w) :: 8 word) +
         65536 * unat (ucast (drop_bit 16 w) :: 8 word) +
         16777216 * unat (ucast (drop_bit 24 w) :: 8 word) = unat w"
proof -
  have b: "unat w < 4294967296" using unsigned_less [of w, where 'a = nat] by simp
  have "unat (ucast w :: 8 word) = unat w mod 256"
    "unat (ucast (drop_bit 8 w) :: 8 word) = unat w div 256 mod 256"
    "unat (ucast (drop_bit 16 w) :: 8 word) = unat w div 65536 mod 256"
    "unat (ucast (drop_bit 24 w) :: 8 word) = unat w div 16777216 mod 256"
    by (simp_all add: unsigned_ucast_eq unat_drop_bit_eq drop_bit_eq_div take_bit_eq_mod unat_div_distrib)
  then show ?thesis using bytes_of_nat32 [OF b] by simp
qed

lemma wavSampleRate_header:
  "wavSampleRate \<lparr>bytes = wavHeader channels len rate @ rest, mimeType = m\<rparr> =
     Some (rate mod 4294967296)"
proof -
  have nth: "(wavHeader channels len rate @ rest) ! i = wavHeader channels len rate ! i"
    if "i < 44" for i
    using that by (simp add: nth_append length_wavHeader)
  have "unat (of_nat rate :: 32 word) = rate mod 4294967296"
    by (simp add: unat_of_nat)
  then show ?thesis
    using le32_value [of "of_nat rate"]
    by (simp add: wavSampleRate_def length_wavHeader nth wavHeader_rate_bytes)
qed

lemma wavSampleRate_audioBufferToBlob:
  "wavSampleRate (audioBufferToBlob p ab quality) = Some (sampleRate ab mod 4294967296)"
  by (simp add: audioBufferToBlob_def wavSampleRate_header)

lemma compressAudio_try_rate:
  assumes "compressAudio_try p audioBlob quality = Inr out"
  shows "\<exists>ab. decodeAudioData p audioBlob = Some ab \<and>
           wavSampleRate out = Some (min (sampleRate ab) 22050)"
proof -
  from assms obtain ab where d: "decodeAudioData p audioBlob = Some ab"
    by (cases "decodeAudioData p audioBlob") (simp_all add: compressAudio_try_def)
  from assms d obtain cb where
    "out = audioBufferToBlob p cb quality" "sampleRate cb = min (sampleRate ab) 22050"
    by (auto simp: compressAudio_try_def Let_def createBuffer_def getChannelData_def
        split: if_splits)
  then have "wavSampleRate out = Some (min (sampleRate ab) 22050 mod 4294967296)"
    by (simp add: wavSampleRate_audioBufferToBlob)
  moreover have "min (sampleRate ab) 22050 mod 4294967296 = min (sampleRate ab) 22050"
    by simp
  ultimately show ?thesis using d by simp
qed

lemma applyNoiseReduction_try_rate:
  assumes "applyNoiseReduction_try p audioBlob = Inr out"
  shows "\<exists>ab. decodeAudioData p audioBlob = Some ab \<and>
           wavSampleRate out = Some (sampleRate ab mod 4294967296)"
proof -
  from assms obtain ab where d: "decodeAudioData p audioBlob = Some ab"
    by (cases "decodeAudioData p audioBlob") (simp_all add: applyNoiseReduction_try_def)
  from assms d obtain fb where
    "out = audioBufferToBlob p fb 0.8" "sampleRate fb = sampleRate ab"
    by (auto simp: applyNoiseReduction_try_def Let_def createBuffer_def split: if_splits)
  then show ?thesis using d by (simp add: wavSampleRate_audioBufferToBlob)
qed

lemma applyNoiseReduction_cases:
  "(\<exists>e. applyNoiseReduction_try p audioBlob = Inl e \<and> applyNoiseReduction p audioBlob = audioBlob) \<or>
   applyNoiseReduction_try p audioBlob = Inr (applyNoiseReduction p audioBlob)"
  by (cases "applyNoiseReduction_try p audioBlob") (simp_all add: applyNoiseReduction_def)

lemma compressAudio_cases:
  "(\<exists>e. compressAudio_try p audioBlob q = Inl e \<and> compressAudio p audioBlob (Some q) = audioBlob) \<or>
   compressAudio_try p audioBlob q = Inr (compressAudio p audioBlob (Some q))"
  by (cases "compressAudio_try p audioBlob q") (simp_all add: compressAudio_def)

lemma decode_fails:
  assumes "decodeAudioData p audioBlob = None"
  shows "applyNoiseReduction p audioBlob = audioBlob"
    and "compressAudio p audioBlob quality = audioBlob"
    and "fst (processAudio p audioBlob) = audioBlob"
proof -
  show a: "applyNoiseReduction p audioBlob = audioBlob"
    using assms by (simp add: applyNoiseReduction_def applyNoiseReduction_try_def)
  show c: "compressAudio p audioBlob quality = audioBlob" for quality
    using assms by (simp add: compressAudio_def compressAudio_try_def)
  show "fst (processAudio p audioBlob) = audioBlob"
    by (simp add: processAudio_def Let_def a c)
qed


lemma decodeAudioData_noWebAudio: "decodeAudioData noWebAudio b = None"
  by (simp add: noWebAudio_def)

lemma wavSampleRate_less:
  assumes "wavSampleRate b = Some r"
  shows "r < 4294967296"
proof -
  have byte: "unat (x :: 8 word) < 256" for x
    using unsigned_less [of x, where 'a = nat] by simp
  from assms have r: "r = unat (bytes b ! 24) + 256 * unat (bytes b ! 25) +
      65536 * unat (bytes b ! 26) + 16777216 * unat (bytes b ! 27)"
    by (simp add: wavSampleRate_def split: if_splits)
  show ?thesis
    using byte [of "bytes b ! 24"] byte [of "bytes b ! 25"] byte [of "bytes b ! 26"]
      byte [of "bytes b ! 27"]
    unfolding r by linarith
qed

text \<open>Noise reduction keeps the declared rate when the decoder reports it.\<close>

lemma applyNoiseReduction_keeps_rate:
  assumes d: "decodeAudioData p audioBlob = Some ab"
    and r: "wavSampleRate audioBlob = Some (sampleRate ab)"
  shows "wavSampleRate (applyNoiseReduction p audioBlob) = Some (sampleRate ab)"
proof (cases "applyNoiseReduction_try p audioBlob")
  case (Inl e)
  then show ?thesis using r by (simp add: applyNoiseReduction_def)
next
  case (Inr reduced)
  from applyNoiseReduction_try_rate [OF Inr] d
  have "wavSampleRate reduced = Some (sampleRate ab mod 4294967296)" by auto
  moreover have "sampleRate ab < 4294967296" by (rule wavSampleRate_less [OF r])
  ultimately show ?thesis using Inr by (simp add: applyNoiseReduction_def)
qed

text \<open>On the 48 kHz platform both steps succeed on every blob: noise reduction gives a
  file at 48000 Hz, compression one at 22050 Hz.\<close>

lemma webAudio48k_decodes:
  "decodeAudioData webAudio48k b = Some \<lparr>sampleRate = 48000, channelData = [[1, 2, 3, 4]]\<rparr>"
  by (simp add: webAudio48k_def)

lemma webAudio48k_reduces:
  "wavSampleRate (applyNoiseReduction webAudio48k b) = Some 48000"
proof -
  have s: "bufferSupported webAudio48k channels len rate = (0 < channels \<and> 0 < len \<and> 0 < rate)"
    for channels len rate
    by (simp add: webAudio48k_def)
  obtain reduced where nr: "applyNoiseReduction_try webAudio48k b = Inr reduced"
    by (simp add: applyNoiseReduction_try_def webAudio48k_decodes s createBuffer_def
        numberOfChannels_def length_b_def Let_def)
  from applyNoiseReduction_try_rate [OF nr] show ?thesis
    using nr by (simp add: applyNoiseReduction_def webAudio48k_decodes)
qed

lemma webAudio48k_compresses:
  "wavSampleRate (compressAudio webAudio48k b (Some q)) = Some 22050"
proof -
  have s: "bufferSupported webAudio48k channels len rate = (0 < channels \<and> 0 < len \<and> 0 < rate)"
    "scaleLength webAudio48k len target rate = len * target div rate" for channels len rate target
    by (simp_all add: webAudio48k_def)
  obtain out where c: "compressAudio_try webAudio48k b q = Inr out"
    by (simp add: compressAudio_try_def webAudio48k_decodes s createBuffer_def getChannelData_def
        numberOfChannels_def length_b_def Let_def)
  from compressAudio_try_rate [OF c] show ?thesis
    using c by (simp add: compressAudio_def webAudio48k_decodes)
qed

text \<open>
  Claim C8, as stated, fails in three ways.
  \<^item> On a platform where decoding raises, a 48 kHz WAV file of 204844 bytes goes
    through both steps: \<open>compressAudio\<close> is invoked, its decoding raises, and the file
    comes out as it went in, at 48000 Hz, above 22050 Hz.
  \<^item> On an audio context at 48 kHz, a 16 kHz WAV file of 204844 bytes is decoded at
    48000 Hz and compressed to 22050 Hz, above its original 16000 Hz.
  \<^item> On the same context, a 96 kHz WAV file of 52 bytes is not compressed, and noise
    reduction writes it at the 48000 Hz of the decoded buffer, below its original
    96000 Hz.
\<close>

theorem sample_rate_bounds_fail:
  "size_b wav48k > 200 * 1024 \<and>
   processAudio noWebAudio wav48k = (wav48k, [ApplyNoiseReduction, CompressAudio]) \<and>
   wavSampleRate (fst (processAudio noWebAudio wav48k)) = Some 48000 \<and>
   \<not> (48000 \<le> (22050 :: nat)) \<and>
   size_b wav16k > 200 * 1024 \<and>
   wavSampleRate wav16k = Some 16000 \<and>
   snd (processAudio webAudio48k wav16k) = [ApplyNoiseReduction, CompressAudio] \<and>
   wavSampleRate (fst (processAudio webAudio48k wav16k)) = Some 22050 \<and>
   \<not> (22050 \<le> (16000 :: nat)) \<and>
   size_b wav96k \<le> 200 * 1024 \<and>
   wavSampleRate wav96k = Some 96000 \<and>
   snd (processAudio webAudio48k wav96k) = [ApplyNoiseReduction] \<and>
   wavSampleRate (fst (processAudio webAudio48k wav96k)) = Some 48000 \<and>
   (48000 :: nat) < 96000"
proof -
  have big: "size_b wav48k > 200 * 1024"
    by (simp add: size_b_def wav48k_def length_wavHeader)
  have a: "applyNoiseReduction noWebAudio wav48k = wav48k"
    and c: "compressAudio noWebAudio wav48k quality = wav48k" for quality
    by (rule decode_fails [OF decodeAudioData_noWebAudio])+
  have p: "processAudio noWebAudio wav48k = (wav48k, [ApplyNoiseReduction, CompressAudio])"
    using big by (simp add: processAudio_def Let_def a c)
  have r: "wavSampleRate wav48k = Some 48000"
    by (simp add: wav48k_def wavSampleRate_header)
  have big16: "size_b wav16k > 200 * 1024"
    by (simp add: size_b_def wav16k_def length_wavHeader)
  have r16: "wavSampleRate wav16k = Some 16000"
    by (simp add: wav16k_def wavSampleRate_header)
  have p16: "processAudio webAudio48k wav16k =
      (compressAudio webAudio48k (applyNoiseReduction webAudio48k wav16k) (Some 0.95),
       [ApplyNoiseReduction, CompressAudio])"
    using big16 by (simp add: processAudio_def Let_def)
  have out16: "wavSampleRate (fst (processAudio webAudio48k wav16k)) = Some 22050"
    unfolding p16 fst_conv by (rule webAudio48k_compresses)
  have small96: "size_b wav96k \<le> 200 * 1024"
    by (simp add: size_b_def wav96k_def length_wavHeader)
  have r96: "wavSampleRate wav96k = Some 96000"
    by (simp add: wav96k_def wavSampleRate_header)
  have p96: "processAudio webAudio48k wav96k =
      (applyNoiseReduction webAudio48k wav96k, [ApplyNoiseReduction])"
    using small96 by (simp add: processAudio_def Let_def)
  have out96: "wavSampleRate (fst (processAudio webAudio48k wav96k)) = Some 48000"
    unfolding p96 fst_conv by (rule webAudio48k_reduces)
  show ?thesis
    using big p r big16 r16 out16 small96 r96 out96 by (simp add: p16 p96)
qed

text \<open>
  Claim C8, amended. The size is that of the blob before noise reduction; the rate of a
  blob is the one its WAV header declares.
  \<^item> At most 200 KiB: \<open>compressAudio\<close> is not invoked. The output is that of noise
    reduction: a WAV file at the sample rate of the decoded buffer, or the input itself
    when noise reduction fails. When the decoder reports the rate that the input
    declares, the output has the rate of the input: it is not reduced.
  \<^item> More than 200 KiB: \<open>compressAudio\<close> is invoked on the output of noise
    reduction. When it succeeds, its output declares \<open>min rate 22050\<close>, where
    \<open>rate\<close> is the sample rate of the buffer it decoded: at most 22050 Hz and at most
    \<open>rate\<close>. When both decodings report the rate that their input declares, this is
    \<open>min original 22050\<close> for the rate \<open>original\<close> of the input of the pipeline: at
    most 22050 Hz and at most the original rate. When it fails, its input is passed on
    unchanged.
\<close>

theorem compression_threshold:
  "(size_b audioBlob \<le> 200 * 1024 \<longrightarrow>
      processAudio p audioBlob = (applyNoiseReduction p audioBlob, [ApplyNoiseReduction]) \<and>
      CompressAudio \<notin> set (snd (processAudio p audioBlob)) \<and>
      (applyNoiseReduction_try p audioBlob = Inr reduced \<longrightarrow>
         fst (processAudio p audioBlob) = reduced \<and>
         (\<exists>ab. decodeAudioData p audioBlob = Some ab \<and>
               wavSampleRate reduced = Some (sampleRate ab mod 4294967296))) \<and>
      (applyNoiseReduction_try p audioBlob = Inl e \<longrightarrow> fst (processAudio p audioBlob) = audioBlob) \<and>
      (decodeAudioData p audioBlob = Some original \<and>
       wavSampleRate audioBlob = Some (sampleRate original) \<longrightarrow>
         wavSampleRate (fst (processAudio p audioBlob)) = wavSampleRate audioBlob)) \<and>
   (size_b audioBlob > 200 * 1024 \<longrightarrow>
      processAudio p audioBlob =
        (compressAudio p (applyNoiseReduction p audioBlob) (Some 0.95),
         [ApplyNoiseReduction, CompressAudio]) \<and>
      (compressAudio_try p (applyNoiseReduction p audioBlob) 0.95 = Inr out \<longrightarrow>
         fst (processAudio p audioBlob) = out \<and>
         (\<exists>ab. decodeAudioData p (applyNoiseReduction p audioBlob) = Some ab \<and>
               wavSampleRate out = Some (min (sampleRate ab) 22050) \<and>
               min (sampleRate ab) 22050 \<le> 22050 \<and>
               min (sampleRate ab) 22050 \<le> sampleRate ab) \<and>
         (decodeAudioData p audioBlob = Some original \<and>
          wavSampleRate audioBlob = Some (sampleRate original) \<and>
          decodeAudioData p (applyNoiseReduction p audioBlob) = Some reduced' \<and>
          wavSampleRate (applyNoiseReduction p audioBlob) = Some (sampleRate reduced') \<longrightarrow>
            wavSampleRate out = Some (min (sampleRate original) 22050) \<and>
            min (sampleRate original) 22050 \<le> 22050 \<and>
            min (sampleRate original) 22050 \<le> sampleRate original)) \<and>
      (compressAudio_try p (applyNoiseReduction p audioBlob) 0.95 = Inl e' \<longrightarrow>
         fst (processAudio p audioBlob) = applyNoiseReduction p audioBlob))"
proof (intro conjI impI)
  {
    assume small: "size_b audioBlob \<le> 200 * 1024"
    then show eq: "processAudio p audioBlob = (applyNoiseReduction p audioBlob, [ApplyNoiseReduction])"
      by (simp add: processAudio_def Let_def)
    show "CompressAudio \<notin> set (snd (processAudio p audioBlob))"
      by (simp add: eq)
    {
      assume r: "applyNoiseReduction_try p audioBlob = Inr reduced"
      then show "fst (processAudio p audioBlob) = reduced"
        by (simp add: eq applyNoiseReduction_def)
      from applyNoiseReduction_try_rate [OF r]
      show "\<exists>ab. decodeAudioData p audioBlob = Some ab \<and>
               wavSampleRate reduced = Some (sampleRate ab mod 4294967296)" .
    }
    {
      assume "applyNoiseReduction_try p audioBlob = Inl e"
      then show "fst (processAudio p audioBlob) = audioBlob"
        by (simp add: eq applyNoiseReduction_def)
    }
    {
      assume "decodeAudioData p audioBlob = Some original \<and>
        wavSampleRate audioBlob = Some (sampleRate original)"
      then show "wavSampleRate (fst (processAudio p audioBlob)) = wavSampleRate audioBlob"
        using applyNoiseReduction_keeps_rate [of p audioBlob original] by (simp add: eq)
    }
  }
  {
    assume big: "size_b audioBlob > 200 * 1024"
    then show eq: "processAudio p audioBlob =
        (compressAudio p (applyNoiseReduction p audioBlob) (Some 0.95),
         [ApplyNoiseReduction, CompressAudio])"
      by (simp add: processAudio_def Let_def)
    {
      assume r: "compressAudio_try p (applyNoiseReduction p audioBlob) 0.95 = Inr out"
      then show "fst (processAudio p audioBlob) = out"
        by (simp add: eq compressAudio_def)
      from compressAudio_try_rate [OF r]
      show "\<exists>ab. decodeAudioData p (applyNoiseReduction p audioBlob) = Some ab \<and>
               wavSampleRate out = Some (min (sampleRate ab) 22050) \<and>
               min (sampleRate ab) 22050 \<le> 22050 \<and>
               min (sampleRate ab) 22050 \<le> sampleRate ab"
        by auto
      {
        assume h: "decodeAudioData p audioBlob = Some original \<and>
          wavSampleRate audioBlob = Some (sampleRate original) \<and>
          decodeAudioData p (applyNoiseReduction p audioBlob) = Some reduced' \<and>
          wavSampleRate (applyNoiseReduction p audioBlob) = Some (sampleRate reduced')"
        then have "wavSampleRate (applyNoiseReduction p audioBlob) = Some (sampleRate original)"
          using applyNoiseReduction_keeps_rate [of p audioBlob original] by simp
        with h have same: "sampleRate reduced' = sampleRate original" by simp
        from compressAudio_try_rate [OF r] h same
        show "wavSampleRate out = Some (min (sampleRate original) 22050)" by auto
        show "min (sampleRate original) 22050 \<le> 22050"
          "min (sampleRate original) 22050 \<le> sampleRate original" by simp_all
      }
    }
    {
      assume "compressAudio_try p (applyNoiseReduction p audioBlob) 0.95 = Inl e'"
      then show "fst (processAudio p audioBlob) = applyNoiseReduction p audioBlob"
        by (simp add: eq compressAudio_def)
    }
  }
qed

lemma webAudioNative_decodes:
  "wavSampleRate b = Some rate \<Longrightarrow>
   decodeAudioData webAudioNative b = Some \<lparr>sampleRate = rate, channelData = [[1, 2, 3, 4]]\<rparr>"
  by (simp add: webAudioNative_def)

theorem compression_threshold_witness:
  "processAudio webAudio48k (recording 10) =
     (applyNoiseReduction webAudio48k (recording 10), [ApplyNoiseReduction]) \<and>
   snd (processAudio webAudio48k (recording 204801)) = [ApplyNoiseReduction, CompressAudio] \<and>
   wavSampleRate (fst (processAudio webAudio48k (recording 204801))) = Some 22050 \<and>
   fst (processAudio noWebAudio (recording 204801)) = recording 204801 \<and>
   wavSampleRate (fst (processAudio webAudioNative wav96k)) = Some 96000 \<and>
   wavSampleRate (fst (processAudio webAudioNative wav16k)) = Some 16000 \<and>
   wavSampleRate (fst (processAudio webAudioNative wav48k)) = Some 22050"
proof -
  have small: "size_b (recording 10) \<le> 200 * 1024" and big: "size_b (recording 204801) > 200 * 1024"
    by (simp_all add: size_b_def recording_def)
  have d: "decodeAudioData webAudio48k b = Some \<lparr>sampleRate = 48000, channelData = [[1, 2, 3, 4]]\<rparr>" for b
    by (rule webAudio48k_decodes)
  have s: "bufferSupported webAudio48k channels len rate = (0 < channels \<and> 0 < len \<and> 0 < rate)"
    "scaleLength webAudio48k len target rate = len * target div rate" for channels len rate target
    by (simp_all add: webAudio48k_def)
  obtain out where c: "compressAudio_try webAudio48k
      (applyNoiseReduction webAudio48k (recording 204801)) 0.95 = Inr out"
    by (simp add: compressAudio_try_def d s createBuffer_def getChannelData_def
        numberOfChannels_def length_b_def Let_def)
  have f: "\<exists>e. compressAudio_try noWebAudio (applyNoiseReduction noWebAudio (recording 204801)) 0.95 = Inl e"
    by (simp add: compressAudio_try_def decodeAudioData_noWebAudio)
  then obtain e' where f': "compressAudio_try noWebAudio
      (applyNoiseReduction noWebAudio (recording 204801)) 0.95 = Inl e'" by blast
  have a: "applyNoiseReduction noWebAudio (recording 204801) = recording 204801"
    by (rule decode_fails [OF decodeAudioData_noWebAudio])
  define buffer :: "nat AudioBuffer" where
    "buffer = \<lparr>sampleRate = 48000, channelData = [[1, 2, 3, 4]]\<rparr>"
  have first: "processAudio webAudio48k (recording 10) =
       (applyNoiseReduction webAudio48k (recording 10), [ApplyNoiseReduction]) \<and>
     snd (processAudio webAudio48k (recording 204801)) = [ApplyNoiseReduction, CompressAudio] \<and>
     wavSampleRate (fst (processAudio webAudio48k (recording 204801))) = Some 22050 \<and>
     fst (processAudio noWebAudio (recording 204801)) = recording 204801"
    using compression_threshold [where p = webAudio48k and audioBlob = "recording 10"
        and reduced = "recording 0" and e = DecodeError and original = buffer and out = out
        and reduced' = buffer and e' = e']
      compression_threshold [where p = webAudio48k and audioBlob = "recording 204801"
        and reduced = "recording 0" and e = DecodeError and original = buffer and out = out
        and reduced' = buffer and e' = e']
      compression_threshold [where p = noWebAudio and audioBlob = "recording 204801"
        and reduced = "recording 0" and e = DecodeError and original = buffer and out = out
        and reduced' = buffer and e' = e']
      small big c f' a
    by (auto simp: d)
  let ?p = webAudioNative
  have sn: "bufferSupported ?p channels len rate = (0 < channels \<and> 0 < len \<and> 0 < rate)"
    "scaleLength ?p len target rate = len * target div rate" for channels len rate target
    by (simp_all add: webAudioNative_def)
  have small96: "size_b wav96k \<le> 200 * 1024"
    by (simp add: size_b_def wav96k_def length_wavHeader)
  have r96: "wavSampleRate wav96k = Some 96000"
    by (simp add: wav96k_def wavSampleRate_header)
  note d96 = webAudioNative_decodes [OF r96]
  have out96: "wavSampleRate (fst (processAudio ?p wav96k)) = Some 96000"
    using compression_threshold [where p = ?p and audioBlob = wav96k
        and original = "\<lparr>sampleRate = 96000, channelData = [[1, 2, 3, 4]]\<rparr>"
        and reduced = "recording 0" and e = DecodeError and out = out
        and reduced' = buffer and e' = e']
      small96 r96 d96
    by auto
  have big16: "size_b wav16k > 200 * 1024"
    by (simp add: size_b_def wav16k_def length_wavHeader)
  have r16: "wavSampleRate wav16k = Some 16000"
    by (simp add: wav16k_def wavSampleRate_header)
  note d16 = webAudioNative_decodes [OF r16]
  have n16: "wavSampleRate (applyNoiseReduction ?p wav16k) = Some 16000"
    using applyNoiseReduction_keeps_rate [OF d16] r16 by simp
  note dn16 = webAudioNative_decodes [OF n16]
  obtain out16 where c16: "compressAudio_try ?p (applyNoiseReduction ?p wav16k) 0.95 = Inr out16"
    by (simp add: compressAudio_try_def dn16 sn createBuffer_def getChannelData_def
        numberOfChannels_def length_b_def Let_def)
  have out16: "wavSampleRate (fst (processAudio ?p wav16k)) = Some 16000"
    using compression_threshold [where p = ?p and audioBlob = wav16k and out = out16
        and original = "\<lparr>sampleRate = 16000, channelData = [[1, 2, 3, 4]]\<rparr>"
        and reduced' = "\<lparr>sampleRate = 16000, channelData = [[1, 2, 3, 4]]\<rparr>"
        and reduced = "recording 0" and e = DecodeError and e' = e']
      big16 r16 d16 n16 dn16 c16
    by auto
  have big48: "size_b wav48k > 200 * 1024"
    by (simp add: size_b_def wav48k_def length_wavHeader)
  have r48: "wavSampleRate wav48k = Some 48000"
    by (simp add: wav48k_def wavSampleRate_header)
  note d48 = webAudioNative_decodes [OF r48]
  have n48: "wavSampleRate (applyNoiseReduction ?p wav48k) = Some 48000"
    using applyNoiseReduction_keeps_rate [OF d48] r48 by simp
  note dn48 = webAudioNative_decodes [OF n48]
  obtain out48 where c48: "compressAudio_try ?p (applyNoiseReduction ?p wav48k) 0.95 = Inr out48"
    by (simp add: compressAudio_try_def dn48 sn createBuffer_def getChannelData_def
        numberOfChannels_def length_b_def Let_def)
  have out48: "wavSampleRate (fst (processAudio ?p wav48k)) = Some 22050"
    using compression_threshold [where p = ?p and audioBlob = wav48k and out = out48
        and original = "\<lparr>sampleRate = 48000, channelData = [[1, 2, 3, 4]]\<rparr>"
        and reduced' = "\<lparr>sampleRate = 48000, channelData = [[1, 2, 3, 4]]\<rparr>"
        and reduced = "recording 0" and e = DecodeError and e' = e']
      big48 r48 d48 n48 dn48 c48
    by auto
  show ?thesis using first out96 out16 out48 by simp
qed

text \<open>
  Claim C9. When decoding raises, \<open>applyNoiseReduction\<close> and \<open>compressAudio\<close> (with
  any quality) return the blob they were given, and so does the pipeline of
  \<open>transcribeAudio\<close>. Every failure inside one of the two steps ends in its
  \<open>catch\<close>, which returns the input. The call is not aborted: when it is not served
  from the cache and its budget is at least 0, it goes on to send the original blob.
\<close>

theorem processing_falls_back:
  "(decodeAudioData p audioBlob = None \<longrightarrow>
      applyNoiseReduction p audioBlob = audioBlob \<and>
      compressAudio p audioBlob quality = audioBlob \<and>
      fst (processAudio p audioBlob) = audioBlob) \<and>
   (applyNoiseReduction_try p audioBlob = Inl e \<longrightarrow> applyNoiseReduction p audioBlob = audioBlob) \<and>
   (compressAudio_try p audioBlob q = Inl e \<longrightarrow> compressAudio p audioBlob (Some q) = audioBlob) \<and>
   (decodeAudioData p audioBlob = None \<and>
    fst (getCachedTranscription (createHash (blobText p) (BlobContent audioBlob))
          (lookupAt clk) (storage w)) \<in> {None, Some []} \<and>
    0 \<le> (case retryAttempts of None \<Rightarrow> RETRY_ATTEMPTS cfg | Some k \<Rightarrow> k) \<longrightarrow>
      (\<exists>rest. trace (snd (transcribeAudio p cfg net clk audioBlob retryAttempts w)) =
         trace w @ snd (processAudio p audioBlob) @
         Fetch (url cfg Transcription) (FormData audioBlob ''recording.wav'') # rest))"
proof (intro conjI impI)
  {
    assume d: "decodeAudioData p audioBlob = None"
    show "applyNoiseReduction p audioBlob = audioBlob"
      "compressAudio p audioBlob quality = audioBlob"
      "fst (processAudio p audioBlob) = audioBlob"
      by (rule decode_fails [OF d])+
  }
  {
    assume "applyNoiseReduction_try p audioBlob = Inl e"
    then show "applyNoiseReduction p audioBlob = audioBlob"
      by (simp add: applyNoiseReduction_def)
  }
  {
    assume "compressAudio_try p audioBlob q = Inl e"
    then show "compressAudio p audioBlob (Some q) = audioBlob"
      by (simp add: compressAudio_def)
  }
  {
    let ?n = "case retryAttempts of None \<Rightarrow> RETRY_ATTEMPTS cfg | Some k \<Rightarrow> k"
    let ?h = "createHash (blobText p) (BlobContent audioBlob)"
    assume h: "decodeAudioData p audioBlob = None \<and>
      fst (getCachedTranscription ?h (lookupAt clk) (storage w)) \<in> {None, Some []} \<and> 0 \<le> ?n"
    then have same: "fst (processAudio p audioBlob) = audioBlob"
      by (simp add: decode_fails)
    let ?w2 = "w\<lparr>storage := snd (getCachedTranscription ?h (lookupAt clk) (storage w)),
               trace := trace w @ snd (processAudio p audioBlob)\<rparr>"
    let ?loop = "requestLoop cfg Transcription net ?n clk ?h
        (FormData audioBlob ''recording.wav'') 0 ?w2"
    from h have "int 0 \<le> ?n" by simp
    from requestLoop_trace [OF this, of cfg Transcription net clk ?h
        "FormData audioBlob ''recording.wav''" ?w2]
    obtain rest where "trace (snd ?loop) =
        trace ?w2 @ Fetch (url cfg Transcription) (FormData audioBlob ''recording.wav'') # rest"
      by blast
    moreover from h have "snd (transcribeAudio p cfg net clk audioBlob retryAttempts w) = snd ?loop"
      by (simp add: transcribeAudio_miss same split: prod.splits sum.splits)
    ultimately show "\<exists>rest. trace (snd (transcribeAudio p cfg net clk audioBlob retryAttempts w)) =
         trace w @ snd (processAudio p audioBlob) @
         Fetch (url cfg Transcription) (FormData audioBlob ''recording.wav'') # rest"
      by simp
  }
qed

theorem processing_falls_back_witness:
  "applyNoiseReduction noWebAudio shortRecording = shortRecording \<and>
   compressAudio noWebAudio shortRecording (Some 0.95) = shortRecording \<and>
   fst (processAudio noWebAudio wav48k) = wav48k \<and>
   (\<exists>rest. trace (snd (transcribeAudio noWebAudio exampleConfig silentNet (clockAt 0) shortRecording
        None emptyWorld)) =
      [ApplyNoiseReduction,
       Fetch ''http://localhost:8000/transcribe'' (FormData shortRecording ''recording.wav'')] @ rest)"
proof -
  have miss: "fst (getCachedTranscription (createHash (blobText noWebAudio) (BlobContent shortRecording))
             (lookupAt (clockAt 0)) (storage emptyWorld)) \<in> {None, Some []}"
    by (simp add: getCachedTranscription_def Cache_get_def emptyWorld_def)
  have n: "0 \<le> (case None of None \<Rightarrow> RETRY_ATTEMPTS exampleConfig | Some k \<Rightarrow> k)"
    by (simp add: exampleConfig_def ENV_CONFIG_def)
  have u: "url exampleConfig Transcription = ''http://localhost:8000/transcribe''"
    by (simp add: url_def exampleConfig_def ENV_CONFIG_def)
  have t: "trace emptyWorld = []" by (simp add: emptyWorld_def)
  show ?thesis
    using processing_falls_back [where p = noWebAudio and audioBlob = shortRecording
        and quality = "Some 0.95" and cfg = exampleConfig and net = silentNet
        and clk = "clockAt 0" and retryAttempts = None and w = emptyWorld]
      processing_falls_back [where p = noWebAudio and audioBlob = wav48k]
      miss n decodeAudioData_noWebAudio
    by (simp add: u t processAudio_shortRecording)
qed

end
